theory Spec2Isabelle
  imports Complex_Main "HOL-Library.AList"
begin

section \<open>The JavaScript values the service handles\<close>

text \<open>
  \<^verbatim>\<open>src/services/geminiService.ts\<close> is an ES module (strict mode). It parses model
  output with \<^verbatim>\<open>JSON.parse\<close> and uses the result unchecked, so the values it handles
  are dynamically typed. A \<open>jsval\<close> is such a value: the JSON values, \<open>undefined\<close>
  (the result of reading an absent property), and arrays that carry named properties
  beside their elements (line 222 can assign \<^verbatim>\<open>scores\<close> to a parsed array).
  An object is the list of its own properties in insertion order.

  Numbers are modelled by the real numbers they denote: rounding to IEEE doubles, NaN and
  the infinities are outside the model. A string is a list of code units, each \<open>char\<close>
  standing for one UTF-16 code unit in the range U+0000 to U+00FF; \<^verbatim>\<open>length\<close> and
  \<^verbatim>\<open>slice\<close> count code units, as \<^const>\<open>length\<close> and \<^const>\<open>take\<close> count chars.
\<close>

datatype jsval =
    JUndefined
  | JNull
  | JBool bool
  | JNum real
  | JStr string
  | JArr "jsval list" "(string \<times> jsval) list"
  | JObj "(string \<times> jsval) list"

text \<open>
  What a \<^verbatim>\<open>throw\<close> or a rejected promise carries. \<open>Error m\<close> is
  \<^verbatim>\<open>new Error(m)\<close> (line 279); \<open>Rejected d\<close> is any failure of the gateway call,
  \<open>d\<close> describing it.
\<close>

datatype js_error =
    SyntaxError
  | TypeError
  | Error string
  | Rejected string

fun andThen :: "js_error + 'a \<Rightarrow> ('a \<Rightarrow> js_error + 'b) \<Rightarrow> js_error + 'b" where
  "andThen (Inl e) k = Inl e"
| "andThen (Inr x) k = k x"

text \<open>Truthiness, as \<^verbatim>\<open>!x\<close>, \<^verbatim>\<open>x || y\<close> and \<^verbatim>\<open>x && y\<close> read it.\<close>

fun truthy :: "jsval \<Rightarrow> bool" where
  "truthy JUndefined = False"
| "truthy JNull = False"
| "truthy (JBool b) = b"
| "truthy (JNum x) = (x \<noteq> 0)"
| "truthy (JStr s) = (s \<noteq> [])"
| "truthy (JArr xs ps) = True"
| "truthy (JObj ps) = True"

definition lookupProp :: "(string \<times> jsval) list \<Rightarrow> string \<Rightarrow> jsval" where
  "lookupProp ps k = (case map_of ps k of None \<Rightarrow> JUndefined | Some v \<Rightarrow> v)"

text \<open>
  \<^verbatim>\<open>v.k\<close> for a property name \<open>k\<close> that no built-in prototype defines (the service
  reads \<^verbatim>\<open>target_company\<close>, \<^verbatim>\<open>analysis_type\<close> and \<^verbatim>\<open>scores\<close>): a TypeError on
  \<^verbatim>\<open>null\<close> and \<^verbatim>\<open>undefined\<close>, \<^verbatim>\<open>undefined\<close> on the other primitives.
\<close>

fun getProp :: "jsval \<Rightarrow> string \<Rightarrow> js_error + jsval" where
  "getProp JUndefined k = Inl TypeError"
| "getProp JNull k = Inl TypeError"
| "getProp (JObj ps) k = Inr (lookupProp ps k)"
| "getProp (JArr xs ps) k = Inr (lookupProp ps k)"
| "getProp (JBool b) k = Inr JUndefined"
| "getProp (JNum x) k = Inr JUndefined"
| "getProp (JStr s) k = Inr JUndefined"

text \<open>
  \<^verbatim>\<open>v.k = x\<close> in strict mode, for \<open>v\<close> neither \<^verbatim>\<open>null\<close> nor \<^verbatim>\<open>undefined\<close>: an
  object or an array takes the property (in place when it has one of that name, last
  otherwise); on a primitive the assignment throws a TypeError.
\<close>

fun setProp :: "jsval \<Rightarrow> string \<Rightarrow> jsval \<Rightarrow> js_error + jsval" where
  "setProp (JObj ps) k x = Inr (JObj (AList.update k x ps))"
| "setProp (JArr xs ps) k x = Inr (JArr xs (AList.update k x ps))"
| "setProp v k x = Inl TypeError"

section \<open>Constants, platform and gateway\<close>

text \<open>
  The response of \<^verbatim>\<open>ai.models.generateContent\<close>, as far as the service reads it:
  \<^verbatim>\<open>response.text\<close>, \<^verbatim>\<open>response.usageMetadata\<close> and
  \<^verbatim>\<open>response.candidates?.[0]?.groundingMetadata?.groundingChunks\<close>, every part
  optional.
\<close>

record usageMetadata =
  promptTokenCount :: "real option"
  candidatesTokenCount :: "real option"
  totalTokenCount :: "real option"

record web =
  uri :: "string option"
  title :: "string option"

record groundingChunk =
  web :: "web option"

record groundingMetadata =
  groundingChunks :: "groundingChunk list option"

record candidate =
  groundingMetadata :: "groundingMetadata option"

record response =
  responseText :: "string option"
  usageMetadata :: "usageMetadata option"
  candidates :: "candidate list option"

text \<open>The argument of \<^verbatim>\<open>generateContent\<close>.\<close>

datatype schema =
    STRING
  | INTEGER
  | ARRAY schema
  | OBJECT "(string \<times> schema) list" "string list"

datatype tool = googleSearch

record config =
  systemInstruction :: "string option"
  responseMimeType :: "string option"
  responseSchema :: "schema option"
  tools :: "tool list option"

record request =
  model :: string
  contents :: string
  config :: "config option"

record pricing =
  input :: real
  "output" :: real

text \<open>
  What the module takes from outside itself. \<^verbatim>\<open>MODELS\<close>, \<^verbatim>\<open>PRICING\<close> and
  \<^verbatim>\<open>PROMPTS\<close> are imported from \<^verbatim>\<open>../constants\<close>, whose text is not part of the
  sources at hand: they are parameters, \<^verbatim>\<open>PRICING\<close> a finite map of its own entries
  (a model identifier that names a member of \<^verbatim>\<open>Object.prototype\<close> is outside the model).
  The gateway call is a function from the request to its outcome. The built-ins of the
  platform that the model does not compute are parameters too: \<^verbatim>\<open>JSON.parse\<close>,
  \<^verbatim>\<open>JSON.stringify(v, null, 2)\<close>, the conversion of a number to a string, of an array or
  object to a string (which can throw), of a caught error to a string, the arithmetic of
  \<^verbatim>\<open>+\<close> and \<^verbatim>\<open>/\<close> on values that are not all numbers (line 245, which can throw),
  the two readings of \<^verbatim>\<open>performance.now()\<close> and the timestamp
  \<^verbatim>\<open>new Date().toISOString()\<close>. The client \<^verbatim>\<open>new GoogleGenAI({ apiKey })\<close> is taken
  to be constructed without failure.
\<close>

record env =
  MODELS_ROUTER :: string
  MODELS_HUNTER :: string
  MODELS_SCRAPER :: string
  MODELS_ANALYST :: string
  MODELS_REPORTER :: string
  PRICING :: "string \<Rightarrow> pricing option"
  PROMPTS_ROUTER_SYSTEM :: string
  PROMPTS_ANALYST_SYSTEM :: string
  PROMPTS_REPORTER_SYSTEM :: string
  generateContent :: "request \<Rightarrow> js_error + response"
  JSON_parse :: "string \<Rightarrow> js_error + jsval"
  JSON_stringify :: "jsval \<Rightarrow> string"
  Number_toString :: "real \<Rightarrow> string"
  Object_toString :: "jsval \<Rightarrow> js_error + string"
  Error_toString :: "js_error \<Rightarrow> string"
  mixedAverage :: "jsval \<Rightarrow> js_error + string"
  startTime :: real
  endTime :: real
  toISOString :: string

section \<open>Cost of a call\<close>

text \<open>\<^verbatim>\<open>x || 0\<close> for an optional number \<open>x\<close>.\<close>

definition orZero :: "real option \<Rightarrow> real" where
  "orZero x = (case x of None \<Rightarrow> 0 | Some n \<Rightarrow> n)"

text \<open>
  Line 13: \<^verbatim>\<open>PRICING[model] || PRICING['gemini-2.5-flash']\<close>. The result is
  \<^verbatim>\<open>undefined\<close> when the table has neither entry.
\<close>

definition pricingFor :: "env \<Rightarrow> string \<Rightarrow> pricing option" where
  "pricingFor env m =
     (case PRICING env m of Some p \<Rightarrow> Some p | None \<Rightarrow> PRICING env ''gemini-2.5-flash'')"

text \<open>
  Lines 11 to 17. Reading \<^verbatim>\<open>pricing.input\<close> of \<^verbatim>\<open>undefined\<close> throws a TypeError.
\<close>

definition calculateCost :: "env \<Rightarrow> string \<Rightarrow> usageMetadata option \<Rightarrow> js_error + real" where
  "calculateCost env m usage =
     (case usage of
        None \<Rightarrow> Inr 0
      | Some u \<Rightarrow>
          (case pricingFor env m of
             None \<Rightarrow> Inl TypeError
           | Some pricing \<Rightarrow>
               (let inputCost = orZero (promptTokenCount u) / 1000 * input pricing;
                    outputCost = orZero (candidatesTokenCount u) / 1000 * output pricing
                in Inr (inputCost + outputCost))))"

text \<open>\<^verbatim>\<open>response.usageMetadata?.totalTokenCount || 0\<close>.\<close>

definition tokenUsageOf :: "response \<Rightarrow> real" where
  "tokenUsageOf r =
     (case usageMetadata r of None \<Rightarrow> 0 | Some u \<Rightarrow> orZero (totalTokenCount u))"

section \<open>Log entries, console and the shape of a stage\<close>

text \<open>
  \<^verbatim>\<open>AgentRole\<close> and \<^verbatim>\<open>LogEntry\<close> come from \<^verbatim>\<open>../types\<close>; the entry has the fields the
  service writes. Its \<^verbatim>\<open>type\<close> is the string the code gives it, \<^verbatim>\<open>'success'\<close> or
  \<^verbatim>\<open>'error'\<close>.
\<close>

datatype AgentRole = ROUTER | HUNTER | SCRAPER | ANALYST | REPORTER

record LogEntry =
  timestamp :: string
  agent :: AgentRole
  message :: string
  type :: string
  latencyMs :: real
  tokenUsage :: real
  cost :: real

text \<open>Every stage returns an object with a \<^verbatim>\<open>log\<close> property beside its payload.\<close>

record logged =
  log_entry :: LogEntry

datatype console_call =
    console_error string js_error
  | console_warn string js_error

text \<open>
  A stage is an \<^verbatim>\<open>async\<close> function: it ends by returning its result or by throwing, and
  on the way it may write to the console. Its outcome is the list of console calls, in
  order, and the result or the error thrown.
\<close>

type_synonym 'a stage = "console_call list \<times> (js_error + 'a)"

text \<open>
  \<^verbatim>\<open>try { ... } catch (error) { console.error(label, error); throw error; }\<close>, the
  handler of the first four stages.
\<close>

definition rethrow :: "string \<Rightarrow> js_error + 'a \<Rightarrow> 'a stage" where
  "rethrow label r =
     (case r of Inl e \<Rightarrow> ([console_error label e], Inl e) | Inr x \<Rightarrow> ([], Inr x))"

text \<open>\<^verbatim>\<open>t || d\<close> for an optional string \<open>t\<close>, and the truthiness of \<open>t\<close>.\<close>

definition textOr :: "string option \<Rightarrow> string \<Rightarrow> string" where
  "textOr t d = (case t of None \<Rightarrow> d | Some s \<Rightarrow> if s = [] then d else s)"

definition nonEmpty :: "string option \<Rightarrow> bool" where
  "nonEmpty t = (case t of None \<Rightarrow> False | Some s \<Rightarrow> s \<noteq> [])"

text \<open>
  The conversion of a template literal, \<^verbatim>\<open>`${v}`\<close>: computed for the primitives, the
  platform's for numbers, arrays and objects.
\<close>

definition ToString :: "env \<Rightarrow> jsval \<Rightarrow> js_error + string" where
  "ToString env v =
     (case v of
        JUndefined \<Rightarrow> Inr ''undefined''
      | JNull \<Rightarrow> Inr ''null''
      | JBool b \<Rightarrow> Inr (if b then ''true'' else ''false'')
      | JNum x \<Rightarrow> Inr (Number_toString env x)
      | JStr s \<Rightarrow> Inr s
      | JArr xs ps \<Rightarrow> Object_toString env v
      | JObj ps \<Rightarrow> Object_toString env v)"

text \<open>\<^verbatim>\<open>`${error}`\<close> for a caught error; \<^verbatim>\<open>Error.prototype.toString\<close> for \<open>Error m\<close>.\<close>

definition errorText :: "env \<Rightarrow> js_error \<Rightarrow> string" where
  "errorText env e =
     (case e of
        Error m \<Rightarrow> (if m = [] then ''Error'' else ''Error: '' @ m)
      | _ \<Rightarrow> Error_toString env e)"

text \<open>\<^verbatim>\<open>xs.join(sep)\<close> on an array of strings.\<close>

fun join :: "string \<Rightarrow> string list \<Rightarrow> string" where
  "join sep [] = []"
| "join sep [x] = x"
| "join sep (x # y # ys) = x @ sep @ join sep (y # ys)"

text \<open>The decimal numeral of an array index, the property name of an element.\<close>

fun decimal :: "nat \<Rightarrow> string" where
  "decimal n =
     (if n < 10 then [char_of (48 + n)]
      else decimal (n div 10) @ [char_of (48 + n mod 10)])"

definition indexed :: "jsval list \<Rightarrow> (string \<times> jsval) list" where
  "indexed xs = zip (map decimal [0..<length xs]) xs"

text \<open>
  The own enumerable properties that \<^verbatim>\<open>{...v}\<close> copies: those of an object, the elements
  and properties of an array, the code units of a string, nothing of any other value.
\<close>

fun spread :: "jsval \<Rightarrow> (string \<times> jsval) list" where
  "spread (JObj ps) = ps"
| "spread (JArr xs ps) = indexed xs @ ps"
| "spread (JStr s) = indexed (map (\<lambda>c. JStr [c]) s)"
| "spread v = []"

section \<open>Router\<close>

text \<open>
  Lines 20 to 62. The result is \<^verbatim>\<open>{...result, log}\<close>: the properties of the parsed
  value, whatever they are, and the log entry, which replaces a parsed property named
  \<^verbatim>\<open>log\<close>.
\<close>

record RouterResult = logged +
  properties :: "(string \<times> jsval) list"

definition target_company :: "RouterResult \<Rightarrow> jsval" where
  "target_company r = lookupProp (properties r) ''target_company''"

definition analysis_type :: "RouterResult \<Rightarrow> jsval" where
  "analysis_type r = lookupProp (properties r) ''analysis_type''"

definition search_queries :: "RouterResult \<Rightarrow> jsval" where
  "search_queries r = lookupProp (properties r) ''search_queries''"

definition routerRequest :: "env \<Rightarrow> string \<Rightarrow> request" where
  "routerRequest env query =
     \<lparr>model = MODELS_ROUTER env,
      contents = query,
      config = Some
        \<lparr>systemInstruction = Some (PROMPTS_ROUTER_SYSTEM env),
         responseMimeType = Some ''application/json'',
         responseSchema = Some
           (OBJECT
              [(''target_company'', STRING),
               (''analysis_type'', STRING),
               (''search_queries'', ARRAY STRING)]
              [''target_company'', ''analysis_type'', ''search_queries'']),
         tools = None\<rparr>\<rparr>"

text \<open>Lines 43 to 61, from the outcome of the gateway call on.\<close>

definition routerFinish :: "env \<Rightarrow> js_error + response \<Rightarrow> RouterResult stage" where
  "routerFinish env outcome =
     rethrow ''Router Agent Error:''
       (andThen outcome (\<lambda>response.
        andThen (JSON_parse env (textOr (responseText response) ''{}'')) (\<lambda>result.
        andThen (getProp result ''target_company'') (\<lambda>company.
        andThen (ToString env company) (\<lambda>companyText.
        andThen (getProp result ''analysis_type'') (\<lambda>analysis.
        andThen (ToString env analysis) (\<lambda>analysisText.
        andThen (calculateCost env (MODELS_ROUTER env) (usageMetadata response)) (\<lambda>c.
          Inr \<lparr>log_entry =
                 \<lparr>timestamp = toISOString env,
                  agent = ROUTER,
                  message = ''Identified target: '' @ companyText @ '' ('' @ analysisText @ '')'',
                  type = ''success'',
                  latencyMs = endTime env - startTime env,
                  tokenUsage = tokenUsageOf response,
                  cost = c\<rparr>,
               properties = filter (\<lambda>p. fst p \<noteq> ''log'') (spread result)\<rparr>))))))))"

definition runRouterAgent :: "env \<Rightarrow> string \<Rightarrow> RouterResult stage" where
  "runRouterAgent env query = routerFinish env (generateContent env (routerRequest env query))"

section \<open>Hunter\<close>

record ScrapedContent =
  url :: string
  title :: string
  snippet :: string
  content :: string

record HunterResult = logged +
  discoveredUrls :: "ScrapedContent list"

text \<open>
  \<^verbatim>\<open>encodeURIComponent\<close> on code units up to U+00FF: an unreserved character stands for
  itself, any other is written as the \<^verbatim>\<open>%XX\<close> escapes of its UTF-8 bytes, one byte
  below U+0080 and two from there on. (The URIError of a lone surrogate cannot arise in
  this range.)
\<close>

definition uriUnreserved :: "char \<Rightarrow> bool" where
  "uriUnreserved c \<longleftrightarrow>
     c \<in> set ''ABCDEFGHIJKLMNOPQRSTUVWXYZabcdefghijklmnopqrstuvwxyz0123456789-_.!~*'()''"

definition hexDigit :: "nat \<Rightarrow> char" where
  "hexDigit d = ''0123456789ABCDEF'' ! (d mod 16)"

definition percent :: "nat \<Rightarrow> string" where
  "percent b = [CHR ''%'', hexDigit (b div 16), hexDigit b]"

definition encodeUnit :: "char \<Rightarrow> string" where
  "encodeUnit c =
     (let n = (of_char c :: nat)
      in if uriUnreserved c then [c]
         else if n < 128 then percent n
         else percent (192 + n div 64) @ percent (128 + n mod 64))"

definition encodeURIComponent :: "string \<Rightarrow> string" where
  "encodeURIComponent s = concat (map encodeUnit s)"

definition queryContext :: "string list \<Rightarrow> string" where
  "queryContext queries =
     (if length queries > 0
      then ''Specifically investigate these topics: '' @ join '', '' queries @ ''.''
      else '''')"

definition hunterRequest :: "env \<Rightarrow> string \<Rightarrow> string list \<Rightarrow> request" where
  "hunterRequest env company queries =
     \<lparr>model = MODELS_HUNTER env,
      contents =
        ''Find the latest official news, pricing, and feature announcements for '' @ company
        @ ''. '' @ queryContext queries @ '' Be thorough and prioritize recent data.'',
      config = Some
        \<lparr>systemInstruction = None,
         responseMimeType = None,
         responseSchema = None,
         tools = Some [googleSearch]\<rparr>\<rparr>"

text \<open>Line 85: \<^verbatim>\<open>response.candidates?.[0]?.groundingMetadata?.groundingChunks || []\<close>.\<close>

definition groundingChunksOf :: "response \<Rightarrow> groundingChunk list" where
  "groundingChunksOf r =
     (case candidates r of
        None \<Rightarrow> []
      | Some [] \<Rightarrow> []
      | Some (c # cs) \<Rightarrow>
          (case groundingMetadata c of
             None \<Rightarrow> []
           | Some g \<Rightarrow> (case groundingChunks g of None \<Rightarrow> [] | Some chunks \<Rightarrow> chunks)))"

text \<open>Line 88: \<^verbatim>\<open>chunk.web?.uri && chunk.web?.title\<close>.\<close>

definition hasUriAndTitle :: "groundingChunk \<Rightarrow> bool" where
  "hasUriAndTitle chunk =
     (case web chunk of None \<Rightarrow> False | Some w \<Rightarrow> nonEmpty (uri w) \<and> nonEmpty (web.title w))"

text \<open>
  Lines 87 to 94: one record for each grounding chunk with a URI and a title, all of them
  carrying the text of the response.
\<close>

definition groundedUrls :: "response \<Rightarrow> ScrapedContent list" where
  "groundedUrls response =
     map (\<lambda>chunk.
            \<lparr>url = the (uri (the (web chunk))),
             title = the (web.title (the (web chunk))),
             snippet = take 200 (textOr (responseText response) '''') @ ''...'',
             content = textOr (responseText response) ''''\<rparr>)
         (filter hasUriAndTitle (groundingChunksOf response))"

text \<open>
  Lines 96 to 104: the value of \<^verbatim>\<open>discoveredUrls\<close> after the fallback, before the
  contents are cut.
\<close>

definition foundUrls :: "string \<Rightarrow> response \<Rightarrow> ScrapedContent list" where
  "foundUrls company response =
     (case responseText response of
        None \<Rightarrow> groundedUrls response
      | Some t \<Rightarrow>
          if length (groundedUrls response) = 0 \<and> t \<noteq> []
          then [\<lparr>url = ''https://google.com/search?q='' @ encodeURIComponent company,
                 title = company @ '' Search Results'',
                 snippet = take 150 t @ ''...'',
                 content = t\<rparr>]
          else groundedUrls response)"

text \<open>Lines 106 to 110.\<close>

definition optimizedUrls :: "ScrapedContent list \<Rightarrow> ScrapedContent list" where
  "optimizedUrls found = map (\<lambda>u. u\<lparr>content := take 2000 (content u)\<rparr>) found"

text \<open>Lines 84 to 129, from the outcome of the gateway call on.\<close>

definition hunterFinish :: "env \<Rightarrow> string \<Rightarrow> js_error + response \<Rightarrow> HunterResult stage" where
  "hunterFinish env company outcome =
     rethrow ''Hunter Agent Error:''
       (andThen outcome (\<lambda>response.
        andThen (calculateCost env (MODELS_HUNTER env) (usageMetadata response)) (\<lambda>c.
          Inr \<lparr>log_entry =
                 \<lparr>timestamp = toISOString env,
                  agent = HUNTER,
                  message =
                    ''Discovered ''
                    @ Number_toString env (real (length (foundUrls company response)))
                    @ '' high-signal URLs via Google Search'',
                  type = ''success'',
                  latencyMs = endTime env - startTime env,
                  tokenUsage = tokenUsageOf response,
                  cost = c\<rparr>,
               discoveredUrls = optimizedUrls (foundUrls company response)\<rparr>)))"

definition runHunterAgent :: "env \<Rightarrow> string \<Rightarrow> string list \<Rightarrow> HunterResult stage" where
  "runHunterAgent env company queries =
     hunterFinish env company (generateContent env (hunterRequest env company queries))"

section \<open>Scraper\<close>

record ScraperResult = logged +
  extractedContent :: string

text \<open>The callback of line 139, one block of text for a source.\<close>

definition sourceBlock :: "ScrapedContent \<Rightarrow> string" where
  "sourceBlock u =
     ''Source: '' @ url u @ ''\<newline>Title: '' @ title u
     @ ''\<newline>Summary: '' @ take 2000 (content u)"

text \<open>Lines 138 to 140.\<close>

definition rawText :: "ScrapedContent list \<Rightarrow> string" where
  "rawText urls =
     (if length urls > 0
      then join ''\<newline>\<newline>'' (map sourceBlock urls)
      else ''No specific URLs found, please analyze general knowledge about the company.'')"

text \<open>
  Lines 143 to 151. The template literal runs over six lines of the source; its line
  breaks and the indentation of the continuation lines are part of the string.
\<close>

definition scraperRequest :: "env \<Rightarrow> ScrapedContent list \<Rightarrow> request" where
  "scraperRequest env urls =
     \<lparr>model = MODELS_SCRAPER env,
      contents =
        ''You are a Data Engineer. Clean and consolidate the following competitive intelligence data. \<newline>''
        @ ''      Remove duplicates, noise, and marketing fluff. Preserve facts, numbers, dates, and pricing.\<newline>''
        @ ''      Keep the output concise (under 4000 tokens).\<newline>''
        @ ''      \<newline>''
        @ ''      RAW DATA:\<newline>''
        @ ''      '' @ rawText urls,
      config = None\<rparr>"

text \<open>Lines 153 to 175, from the outcome of the gateway call on.\<close>

definition scraperFinish ::
  "env \<Rightarrow> ScrapedContent list \<Rightarrow> js_error + response \<Rightarrow> ScraperResult stage" where
  "scraperFinish env urls outcome =
     rethrow ''Scraper Agent Error:''
       (andThen outcome (\<lambda>response.
        andThen (calculateCost env (MODELS_SCRAPER env) (usageMetadata response)) (\<lambda>c.
          Inr \<lparr>log_entry =
                 \<lparr>timestamp = toISOString env,
                  agent = SCRAPER,
                  message =
                    ''Processed and cleaned content from ''
                    @ Number_toString env (real (length urls)) @ '' sources'',
                  type = ''success'',
                  latencyMs = endTime env - startTime env,
                  tokenUsage = tokenUsageOf response,
                  cost = c\<rparr>,
               extractedContent =
                 (case responseText response of
                    None \<Rightarrow> ''Data extracted but no summary generated.''
                  | Some t \<Rightarrow>
                      if length t > 0 then t
                      else ''Data extracted but no summary generated.'')\<rparr>)))"

definition runScraperAgent :: "env \<Rightarrow> ScrapedContent list \<Rightarrow> ScraperResult stage" where
  "runScraperAgent env urls =
     scraperFinish env urls (generateContent env (scraperRequest env urls))"

section \<open>Analyst\<close>

text \<open>
  The SWOT value is whatever \<^verbatim>\<open>JSON.parse\<close> made of the model's text, or the fallback
  object of lines 232 to 235: a \<open>jsval\<close>, since nothing checks it against the type
  \<^verbatim>\<open>SWOT\<close>.
\<close>

record AnalystResult = logged +
  swot :: jsval

text \<open>White space as \<^verbatim>\<open>String.prototype.trim\<close> reads it, among the code units to U+00FF.\<close>

definition isWhiteSpace :: "char \<Rightarrow> bool" where
  "isWhiteSpace c \<longleftrightarrow> (of_char c :: nat) \<in> {9, 10, 11, 12, 13, 32, 160}"

definition trim :: "string \<Rightarrow> string" where
  "trim s = rev (dropWhile isWhiteSpace (rev (dropWhile isWhiteSpace s)))"

text \<open>Line 184.\<close>

definition safeContent :: "string \<Rightarrow> string" where
  "safeContent content' =
     (if content' \<noteq> [] \<and> length (trim content') > 10 then content'
      else ''No data available for analysis.'')"

definition analystRequest :: "env \<Rightarrow> string \<Rightarrow> request" where
  "analystRequest env content' =
     \<lparr>model = MODELS_ANALYST env,
      contents = ''Data: '' @ safeContent content',
      config = Some
        \<lparr>systemInstruction = Some (PROMPTS_ANALYST_SYSTEM env),
         responseMimeType = Some ''application/json'',
         responseSchema = Some
           (OBJECT
              [(''strengths'', ARRAY STRING),
               (''weaknesses'', ARRAY STRING),
               (''opportunities'', ARRAY STRING),
               (''threats'', ARRAY STRING),
               (''scores'',
                OBJECT
                  [(''innovation'', INTEGER),
                   (''market_share'', INTEGER),
                   (''pricing_power'', INTEGER),
                   (''brand_reputation'', INTEGER),
                   (''velocity'', INTEGER)]
                  [''innovation'', ''market_share'', ''pricing_power'',
                   ''brand_reputation'', ''velocity''])]
              [''strengths'', ''weaknesses'', ''opportunities'', ''threats'', ''scores'']),
         tools = None\<rparr>\<rparr>"

text \<open>The object literal of lines 222 to 228.\<close>

definition defaultScores :: jsval where
  "defaultScores =
     JObj [(''innovation'', JNum 50), (''market_share'', JNum 50), (''pricing_power'', JNum 50),
           (''brand_reputation'', JNum 50), (''velocity'', JNum 50)]"

text \<open>The object literal of lines 232 to 235.\<close>

definition emptySWOT :: jsval where
  "emptySWOT =
     JObj [(''strengths'', JArr [] []), (''weaknesses'', JArr [] []),
           (''opportunities'', JArr [] []), (''threats'', JArr [] []),
           (''scores'',
            JObj [(''innovation'', JNum 0), (''market_share'', JNum 0), (''pricing_power'', JNum 0),
                  (''brand_reputation'', JNum 0), (''velocity'', JNum 0)])]"

text \<open>
  Lines 217 to 236, the inner \<^verbatim>\<open>try\<close>: whatever is thrown between \<^verbatim>\<open>JSON.parse\<close> and
  the assignment of line 222 is caught, reported with \<^verbatim>\<open>console.warn\<close> and answered
  with the fallback object.
\<close>

definition parseSWOT :: "env \<Rightarrow> response \<Rightarrow> console_call list \<times> jsval" where
  "parseSWOT env response =
     (case andThen (JSON_parse env (textOr (responseText response) ''{}'')) (\<lambda>parsed.
           andThen (getProp parsed ''scores'') (\<lambda>scores.
             if \<not> truthy scores then setProp parsed ''scores'' defaultScores
             else Inr parsed))
      of
        Inl e \<Rightarrow> ([console_warn ''JSON parse failed, using fallback empty SWOT'' e], emptySWOT)
      | Inr parsed \<Rightarrow> ([], parsed))"

text \<open>
  The expression interpolated at line 245,
  \<^verbatim>\<open>Object.values(swot.scores).reduce((a, b) => a + b, 0) / 5\<close>: computed when the
  scores are an object of numbers, the platform's otherwise.
\<close>

fun numbersOf :: "jsval list \<Rightarrow> real list option" where
  "numbersOf [] = Some []"
| "numbersOf (JNum x # vs) = (case numbersOf vs of None \<Rightarrow> None | Some xs \<Rightarrow> Some (x # xs))"
| "numbersOf (v # vs) = None"

definition averageText :: "env \<Rightarrow> jsval \<Rightarrow> js_error + string" where
  "averageText env scores =
     (case scores of
        JObj ps \<Rightarrow>
          (case numbersOf (map snd ps) of
             Some xs \<Rightarrow> Inr (Number_toString env (foldl (+) 0 xs / 5))
           | None \<Rightarrow> mixedAverage env scores)
      | _ \<Rightarrow> mixedAverage env scores)"

text \<open>Lines 217 to 256, from the outcome of the gateway call on.\<close>

definition analystFinish :: "env \<Rightarrow> js_error + response \<Rightarrow> AnalystResult stage" where
  "analystFinish env outcome =
     (case outcome of
        Inl e \<Rightarrow> rethrow ''Analyst Agent Error:'' (Inl e)
      | Inr response \<Rightarrow>
          (let (warned, parsed) = parseSWOT env response;
               (failed, r) =
                 rethrow ''Analyst Agent Error:''
                   (andThen (getProp parsed ''scores'') (\<lambda>scores.
                    andThen (averageText env scores) (\<lambda>average.
                    andThen (calculateCost env (MODELS_ANALYST env) (usageMetadata response)) (\<lambda>c.
                      Inr \<lparr>log_entry =
                             \<lparr>timestamp = toISOString env,
                              agent = ANALYST,
                              message =
                                ''Generated SWOT analysis with '' @ average @ ''% avg score'',
                              type = ''success'',
                              latencyMs = endTime env - startTime env,
                              tokenUsage = tokenUsageOf response,
                              cost = c\<rparr>,
                           swot = parsed\<rparr>))))
           in (warned @ failed, r)))"

definition runAnalystAgent :: "env \<Rightarrow> string \<Rightarrow> AnalystResult stage" where
  "runAnalystAgent env content' =
     analystFinish env (generateContent env (analystRequest env content'))"

section \<open>Reporter\<close>

record ReporterResult = logged +
  report :: string

definition reporterRequest :: "env \<Rightarrow> jsval \<Rightarrow> string \<Rightarrow> string \<Rightarrow> request" where
  "reporterRequest env swot' rawData company =
     \<lparr>model = MODELS_REPORTER env,
      contents =
        ''Company: '' @ company @ ''\<newline>\<newline>SWOT Analysis:\<newline>'' @ JSON_stringify env swot'
        @ ''\<newline>\<newline>Context Data:\<newline>'' @ rawData,
      config = Some
        \<lparr>systemInstruction = Some (PROMPTS_REPORTER_SYSTEM env),
         responseMimeType = None,
         responseSchema = None,
         tools = None\<rparr>\<rparr>"

text \<open>
  Lines 275 to 310, from the outcome of the gateway call on. The handler of this stage
  does not throw again: it returns the object of lines 298 to 309.
\<close>

definition reporterFinish :: "env \<Rightarrow> string \<Rightarrow> js_error + response \<Rightarrow> ReporterResult stage" where
  "reporterFinish env company outcome =
     (case
        andThen outcome (\<lambda>response.
        andThen (case responseText response of
                   None \<Rightarrow> Inl (Error ''Reporter agent returned empty content.'')
                 | Some t \<Rightarrow>
                     if t = [] then Inl (Error ''Reporter agent returned empty content.'')
                     else Inr t) (\<lambda>body.
        andThen (calculateCost env (MODELS_REPORTER env) (usageMetadata response)) (\<lambda>c.
          Inr \<lparr>log_entry =
                 \<lparr>timestamp = toISOString env,
                  agent = REPORTER,
                  message = ''Finalized executive report for '' @ company,
                  type = ''success'',
                  latencyMs = endTime env - startTime env,
                  tokenUsage = tokenUsageOf response,
                  cost = c\<rparr>,
               report = body\<rparr>)))
      of
        Inr r \<Rightarrow> ([], Inr r)
      | Inl e \<Rightarrow>
          ([console_error ''Reporter Agent Error:'' e],
           Inr \<lparr>log_entry =
                  \<lparr>timestamp = toISOString env,
                   agent = REPORTER,
                   message = ''Failed to generate report: '' @ errorText env e,
                   type = ''error'',
                   latencyMs = 0,
                   tokenUsage = 0,
                   cost = 0\<rparr>,
                report =
                  ''# Report Generation Failed\<newline>\<newline>The AI model encountered an error generating the final report. Please try again.''\<rparr>))"

definition runReporterAgent :: "env \<Rightarrow> jsval \<Rightarrow> string \<Rightarrow> string \<Rightarrow> ReporterResult stage" where
  "runReporterAgent env swot' rawData company =
     reporterFinish env company (generateContent env (reporterRequest env swot' rawData company))"

section \<open>Properties of a SWOT value\<close>

text \<open>
  The five score names, and what it is for a SWOT value to be fully scored: its
  \<^verbatim>\<open>scores\<close> property is an object with these five names and no other, each bound to an
  integer between 0 and 100.
\<close>

definition scoreNames :: "string list" where
  "scoreNames =
     [''innovation'', ''market_share'', ''pricing_power'', ''brand_reputation'', ''velocity'']"

definition isPercentage :: "jsval \<Rightarrow> bool" where
  "isPercentage v = (case v of JNum x \<Rightarrow> x = of_int \<lfloor>x\<rfloor> \<and> 0 \<le> x \<and> x \<le> 100 | _ \<Rightarrow> False)"

definition fullyScored :: "jsval \<Rightarrow> bool" where
  "fullyScored v =
     (case getProp v ''scores'' of
        Inr (JObj ps) \<Rightarrow>
          distinct (map fst ps)
          \<and> list_all (\<lambda>k. k \<in> set scoreNames) (map fst ps)
          \<and> list_all (\<lambda>k. k \<in> set (map fst ps)) scoreNames
          \<and> list_all isPercentage (map snd ps)
      | _ \<Rightarrow> False)"

text \<open>The values that can take a property: objects and arrays.\<close>

definition isObject :: "jsval \<Rightarrow> bool" where
  "isObject v = (case v of JObj ps \<Rightarrow> True | JArr xs ps \<Rightarrow> True | _ \<Rightarrow> False)"

text \<open>What a stage returned, if it returned.\<close>

definition returned :: "'a stage \<Rightarrow> 'a option" where
  "returned s = (case snd s of Inl e \<Rightarrow> None | Inr r \<Rightarrow> Some r)"

section \<open>A deterministic stub of the platform\<close>

text \<open>
  A gateway that answers every request with one response, and one that fails on every
  request.
\<close>

definition replyWith :: "response \<Rightarrow> request \<Rightarrow> js_error + response" where
  "replyWith r req = Inr r"

definition failWith :: "js_error \<Rightarrow> request \<Rightarrow> js_error + response" where
  "failWith e req = Inl e"

text \<open>A gateway that fails on every request and reports the prompt it was sent.\<close>

definition echoPrompt :: "request \<Rightarrow> js_error + response" where
  "echoPrompt req = Inl (Rejected (contents req))"

definition answer :: "string option \<Rightarrow> usageMetadata option \<Rightarrow> response" where
  "answer t u = \<lparr>responseText = t, usageMetadata = u, candidates = None\<rparr>"

text \<open>
  A response of 2500 code units with three grounding chunks, of which the first alone has
  both a URI and a title.
\<close>

definition longText :: string where
  "longText = replicate 2500 (CHR ''x'')"

definition groundedAnswer :: response where
  "groundedAnswer =
     \<lparr>responseText = Some longText,
      usageMetadata = None,
      candidates = Some
        [\<lparr>groundingMetadata = Some
            \<lparr>groundingChunks = Some
               [\<lparr>web = Some \<lparr>uri = Some ''https://acme.example/pricing'',
                             title = Some ''Acme pricing''\<rparr>\<rparr>,
                \<lparr>web = Some \<lparr>uri = Some ''https://acme.example/news'', title = None\<rparr>\<rparr>,
                \<lparr>web = None\<rparr>]\<rparr>\<rparr>]\<rparr>"

text \<open>Two sources, the second longer than the cap of a summary.\<close>

definition twoSources :: "ScrapedContent list" where
  "twoSources =
     [\<lparr>url = ''https://acme.example/pricing'', title = ''Acme pricing'',
       snippet = ''Acme raised...'', content = ''Acme raised prices.''\<rparr>,
      \<lparr>url = ''https://acme.example/news'', title = ''Acme news'',
       snippet = ''xxx...'', content = longText\<rparr>]"

text \<open>Usage metadata that carries a total and neither of the two counts the cost reads.\<close>

definition totalOnly :: "real \<Rightarrow> usageMetadata" where
  "totalOnly n =
     \<lparr>promptTokenCount = None, candidatesTokenCount = None, totalTokenCount = Some n\<rparr>"

text \<open>
  A parser that knows the value of four JSON texts and rejects every other text, as
  \<^verbatim>\<open>JSON.parse\<close> rejects the text \<^verbatim>\<open>not json\<close>.
\<close>

definition partialScoresText :: string where
  \<open>partialScoresText = ''{"scores":{"innovation":70}}''\<close>

definition strengthsOnlyText :: string where
  \<open>strengthsOnlyText = ''{"strengths":["brand"]}''\<close>

definition parseKnown :: "string \<Rightarrow> js_error + jsval" where
  "parseKnown s =
     (if s = ''{}'' then Inr (JObj [])
      else if s = ''null'' then Inr JNull
      else if s = partialScoresText
      then Inr (JObj [(''scores'', JObj [(''innovation'', JNum 70)])])
      else if s = strengthsOnlyText
      then Inr (JObj [(''strengths'', JArr [JStr ''brand''] [])])
      else Inl SyntaxError)"

definition describeError :: "js_error \<Rightarrow> string" where
  "describeError e =
     (case e of
        SyntaxError \<Rightarrow> ''SyntaxError''
      | TypeError \<Rightarrow> ''TypeError''
      | Error m \<Rightarrow> ''Error: '' @ m
      | Rejected d \<Rightarrow> d)"

text \<open>
  The platform around a given gateway: one model for every stage, a price table with the
  one entry the cost falls back to, and a clock that reads 0 and 1200.
\<close>

definition stubEnv :: "(request \<Rightarrow> js_error + response) \<Rightarrow> env" where
  "stubEnv gateway =
     \<lparr>MODELS_ROUTER = ''gemini-2.5-flash'',
      MODELS_HUNTER = ''gemini-2.5-flash'',
      MODELS_SCRAPER = ''gemini-2.5-flash'',
      MODELS_ANALYST = ''gemini-2.5-flash'',
      MODELS_REPORTER = ''gemini-2.5-flash'',
      PRICING = [''gemini-2.5-flash'' \<mapsto> \<lparr>input = 3 / 10, output = 5 / 2\<rparr>],
      PROMPTS_ROUTER_SYSTEM = ''Route the query.'',
      PROMPTS_ANALYST_SYSTEM = ''Write a SWOT analysis.'',
      PROMPTS_REPORTER_SYSTEM = ''Write the report.'',
      generateContent = gateway,
      JSON_parse = parseKnown,
      JSON_stringify = (\<lambda>v. ''{}''),
      Number_toString = (\<lambda>x. decimal (nat \<lfloor>x\<rfloor>)),
      Object_toString = (\<lambda>v. Inr ''[object Object]''),
      Error_toString = describeError,
      mixedAverage = (\<lambda>v. Inr ''NaN''),
      startTime = 0,
      endTime = 1200,
      toISOString = ''2025-01-01T00:00:00.000Z''\<rparr>"

section \<open>Auxiliary facts\<close>

lemma cost_defined:
  assumes "PRICING env ''gemini-2.5-flash'' = Some d"
  shows "\<exists>c. calculateCost env m u = Inr c"
  using assms by (cases u) (auto simp: calculateCost_def pricingFor_def Let_def split: option.split)

lemma stub_gateway: "generateContent (stubEnv g) = g"
  by (simp add: stubEnv_def)

lemma stub_parse: "JSON_parse (stubEnv g) = parseKnown"
  by (simp add: stubEnv_def)

lemma stub_pricing:
  "PRICING (stubEnv g) ''gemini-2.5-flash'' = Some \<lparr>input = 3 / 10, output = 5 / 2\<rparr>"
  by (simp add: stubEnv_def)

lemma andThen_Inr_iff: "andThen m k = Inr y \<longleftrightarrow> (\<exists>x. m = Inr x \<and> k x = Inr y)"
  by (cases m) auto

lemma rethrow_Inr_iff: "rethrow label m = (cs, Inr y) \<longleftrightarrow> cs = [] \<and> m = Inr y"
  by (cases m) (auto simp: rethrow_def)

lemma parseKnown_values:
  "parseKnown ''{}'' = Inr (JObj [])"
  "parseKnown ''null'' = Inr JNull"
  "parseKnown ''not json'' = Inl SyntaxError"
  "parseKnown partialScoresText = Inr (JObj [(''scores'', JObj [(''innovation'', JNum 70)])])"
  "parseKnown strengthsOnlyText = Inr (JObj [(''strengths'', JArr [JStr ''brand''] [])])"
  by (simp_all add: parseKnown_def partialScoresText_def strengthsOnlyText_def)

lemma textOr_answer:
  "t \<noteq> [] \<Longrightarrow> textOr (responseText (answer (Some t) u)) d = t"
  by (simp add: textOr_def answer_def)

lemma join_Cons: "join sep (x # xs) = x @ concat (map (\<lambda>y. sep @ y) xs)"
  by (induction xs arbitrary: x) simp_all

subsection \<open>Stages that return\<close>

lemma router_returns_empty_object:
  assumes gw: "generateContent env (routerRequest env query) = Inr response"
      and parse: "JSON_parse env (textOr (responseText response) ''{}'') = Inr (JObj [])"
      and dflt: "PRICING env ''gemini-2.5-flash'' = Some d"
  shows "\<exists>r. runRouterAgent env query = ([], Inr r)
           \<and> type (log_entry r) = ''success''
           \<and> message (log_entry r) = ''Identified target: undefined (undefined)''
           \<and> properties r = []"
proof -
  obtain c where "calculateCost env (MODELS_ROUTER env) (usageMetadata response) = Inr c"
    using cost_defined [OF dflt] by blast
  then show ?thesis
    using gw parse
    by (simp add: runRouterAgent_def routerFinish_def rethrow_def ToString_def lookupProp_def)
qed

lemma scraper_returns:
  assumes gw: "generateContent env (scraperRequest env urls) = Inr response"
      and dflt: "PRICING env ''gemini-2.5-flash'' = Some d"
  shows "\<exists>r. runScraperAgent env urls = ([], Inr r)"
proof -
  obtain c where "calculateCost env (MODELS_SCRAPER env) (usageMetadata response) = Inr c"
    using cost_defined [OF dflt] by blast
  then show ?thesis
    using gw by (simp add: runScraperAgent_def scraperFinish_def rethrow_def)
qed

lemma reporter_returns_success:
  assumes gw: "generateContent env (reporterRequest env swot' rawData company) = Inr response"
      and tx: "responseText response = Some t" and ne: "t \<noteq> []"
      and dflt: "PRICING env ''gemini-2.5-flash'' = Some d"
  shows "\<exists>r. runReporterAgent env swot' rawData company = ([], Inr r)
           \<and> type (log_entry r) = ''success'' \<and> report r = t"
proof -
  obtain c where "calculateCost env (MODELS_REPORTER env) (usageMetadata response) = Inr c"
    using cost_defined [OF dflt] by blast
  then show ?thesis
    using gw tx ne by (simp add: runReporterAgent_def reporterFinish_def)
qed

lemma hunter_returns:
  assumes gw: "generateContent env (hunterRequest env company queries) = Inr response"
      and dflt: "PRICING env ''gemini-2.5-flash'' = Some d"
  shows "\<exists>r. runHunterAgent env company queries = ([], Inr r)
           \<and> discoveredUrls r = optimizedUrls (foundUrls company response)"
proof -
  obtain c where "calculateCost env (MODELS_HUNTER env) (usageMetadata response) = Inr c"
    using cost_defined [OF dflt] by blast
  then show ?thesis
    using gw by (simp add: runHunterAgent_def hunterFinish_def rethrow_def)
qed

lemma hunter_returned:
  assumes gw: "generateContent env (hunterRequest env company queries) = Inr response"
      and run: "runHunterAgent env company queries = (cs, Inr r)"
  shows "discoveredUrls r = optimizedUrls (foundUrls company response)"
  using gw run
  by (cases "calculateCost env (MODELS_HUNTER env) (usageMetadata response)")
     (auto simp: runHunterAgent_def hunterFinish_def rethrow_def)

lemma encodeURIComponent_unreserved:
  "\<forall>c\<in>set s. uriUnreserved c \<Longrightarrow> encodeURIComponent s = s"
  by (induction s) (simp_all add: encodeURIComponent_def encodeUnit_def)

subsection \<open>The inner handler of the analyst\<close>

lemma lookup_update: "lookupProp (AList.update k x ps) k = x"
  by (simp add: lookupProp_def update_conv')

lemma parseSWOT_failure:
  assumes "JSON_parse env (textOr (responseText response) ''{}'') = Inl e"
  shows "parseSWOT env response
           = ([console_warn ''JSON parse failed, using fallback empty SWOT'' e], emptySWOT)"
  using assms by (simp add: parseSWOT_def)

lemma parseSWOT_primitive:
  assumes "JSON_parse env (textOr (responseText response) ''{}'') = Inr v"
      and "\<not> isObject v"
  shows "parseSWOT env response
           = ([console_warn ''JSON parse failed, using fallback empty SWOT'' TypeError], emptySWOT)"
  using assms by (cases v) (simp_all add: parseSWOT_def isObject_def lookup_update)

lemma parseSWOT_backfill:
  assumes "JSON_parse env (textOr (responseText response) ''{}'') = Inr v"
      and "isObject v" and "getProp v ''scores'' = Inr s" and "\<not> truthy s"
  shows "\<exists>v'. parseSWOT env response = ([], v') \<and> setProp v ''scores'' defaultScores = Inr v'
              \<and> getProp v' ''scores'' = Inr defaultScores"
  using assms by (cases v) (simp_all add: parseSWOT_def isObject_def lookup_update)

lemma parseSWOT_kept:
  assumes "JSON_parse env (textOr (responseText response) ''{}'') = Inr v"
      and "getProp v ''scores'' = Inr s" and "truthy s"
  shows "parseSWOT env response = ([], v)"
  using assms by (simp add: parseSWOT_def)

lemma analyst_numeric_scores:
  assumes gw: "generateContent env (analystRequest env c) = Inr response"
      and dflt: "PRICING env ''gemini-2.5-flash'' = Some d"
      and parsed: "parseSWOT env response = (warned, v)"
      and scores: "getProp v ''scores'' = Inr (JObj ps)"
      and nums: "numbersOf (map snd ps) = Some xs"
  shows "\<exists>r. runAnalystAgent env c = (warned, Inr r) \<and> swot r = v
            \<and> type (log_entry r) = ''success''
            \<and> message (log_entry r) =
                ''Generated SWOT analysis with '' @ Number_toString env (foldl (+) 0 xs / 5)
                @ ''% avg score''"
proof -
  obtain k where "calculateCost env (MODELS_ANALYST env) (usageMetadata response) = Inr k"
    using cost_defined [OF dflt] by blast
  then show ?thesis
    using gw parsed scores nums
    by (simp add: runAnalystAgent_def analystFinish_def rethrow_def averageText_def)
qed

lemma analyst_swot_is_parsed:
  assumes gw: "generateContent env (analystRequest env c) = Inr response"
      and parsed: "parseSWOT env response = (warned, v)"
      and run: "runAnalystAgent env c = (cs, Inr r)"
  shows "swot r = v"
  using gw parsed run
  by (auto simp: runAnalystAgent_def analystFinish_def rethrow_Inr_iff andThen_Inr_iff
      split: prod.splits)

lemma emptySWOT_scores:
  "getProp emptySWOT ''scores'' =
     Inr (JObj [(''innovation'', JNum 0), (''market_share'', JNum 0), (''pricing_power'', JNum 0),
                (''brand_reputation'', JNum 0), (''velocity'', JNum 0)])"
  by (simp add: emptySWOT_def lookupProp_def)

lemma fullyScored_empty: "fullyScored emptySWOT"
  by (simp add: fullyScored_def emptySWOT_scores scoreNames_def isPercentage_def)

lemma fullyScored_default:
  "getProp v ''scores'' = Inr defaultScores \<Longrightarrow> fullyScored v"
  by (simp add: fullyScored_def defaultScores_def scoreNames_def isPercentage_def)

subsection \<open>Usage metadata with a total alone\<close>

lemma total_only_cost:
  assumes "usageMetadata response = Some u"
      and "promptTokenCount u = None" and "candidatesTokenCount u = None"
      and "calculateCost env m (usageMetadata response) = Inr k"
  shows "k = 0"
  using assms by (auto simp: calculateCost_def orZero_def Let_def split: option.splits)

lemma total_only_tokens:
  assumes "usageMetadata response = Some u" and "totalTokenCount u = Some n"
  shows "tokenUsageOf response = n"
  using assms by (simp add: tokenUsageOf_def orZero_def)

section \<open>Cost: the formula and its sign\<close>

text \<open>
  Claim C6. With no usage record the cost is 0. With one, the cost is
  \<^verbatim>\<open>promptTokenCount / 1000 * input + candidatesTokenCount / 1000 * output\<close>, an absent
  count read as 0, at the prices of the model, or of \<^verbatim>\<open>gemini-2.5-flash\<close> when the table
  has no entry for the model; the call does not fail. The cost is not negative when the
  counts and the two prices are not negative. All this for a price table that has the
  entry \<^verbatim>\<open>gemini-2.5-flash\<close>, which line 13 names.
\<close>

theorem calculateCost_formula:
  assumes dflt: "PRICING env ''gemini-2.5-flash'' = Some d"
  shows "calculateCost env m None = Inr 0 \<and>
    (let p = (case PRICING env m of Some q \<Rightarrow> q | None \<Rightarrow> d);
         c = (case promptTokenCount u of None \<Rightarrow> 0 | Some n \<Rightarrow> n) / 1000 * input p
           + (case candidatesTokenCount u of None \<Rightarrow> 0 | Some n \<Rightarrow> n) / 1000 * output p
     in calculateCost env m (Some u) = Inr c \<and>
        (0 \<le> input p \<and> 0 \<le> output p
         \<and> (\<forall>n. promptTokenCount u = Some n \<longrightarrow> 0 \<le> n)
         \<and> (\<forall>n. candidatesTokenCount u = Some n \<longrightarrow> 0 \<le> n) \<longrightarrow> 0 \<le> c))"
proof -
  have none: "calculateCost env m None = Inr 0"
    by (simp add: calculateCost_def)
  define p where "p = (case PRICING env m of Some q \<Rightarrow> q | None \<Rightarrow> d)"
  have look: "pricingFor env m = Some p"
    using dflt by (simp add: pricingFor_def p_def split: option.split)
  define a where "a = (case promptTokenCount u of None \<Rightarrow> 0 | Some n \<Rightarrow> n)"
  define b where "b = (case candidatesTokenCount u of None \<Rightarrow> 0 | Some n \<Rightarrow> n)"
  have some: "calculateCost env m (Some u) = Inr (a / 1000 * input p + b / 1000 * output p)"
    using look by (simp add: calculateCost_def orZero_def a_def b_def)
  have nonneg: "0 \<le> a / 1000 * input p + b / 1000 * output p"
    if "0 \<le> input p" "0 \<le> output p"
       "\<forall>n. promptTokenCount u = Some n \<longrightarrow> 0 \<le> n"
       "\<forall>n. candidatesTokenCount u = Some n \<longrightarrow> 0 \<le> n"
  proof -
    have "0 \<le> a" using that(3) by (simp add: a_def split: option.split)
    moreover have "0 \<le> b" using that(4) by (simp add: b_def split: option.split)
    ultimately show ?thesis using that(1,2) by simp
  qed
  show ?thesis
    using none some nonneg by (simp add: Let_def p_def a_def b_def)
qed

theorem calculateCost_formula_witness:
  "PRICING (stubEnv (failWith (Rejected ''offline''))) ''gemini-2.5-flash''
     = Some \<lparr>input = 3 / 10, output = 5 / 2\<rparr>
   \<and> calculateCost (stubEnv (failWith (Rejected ''offline''))) ''some-other-model'' None = Inr 0
   \<and> calculateCost (stubEnv (failWith (Rejected ''offline''))) ''some-other-model''
        (Some \<lparr>promptTokenCount = Some 2000, candidatesTokenCount = None,
               totalTokenCount = Some 2000\<rparr>) = Inr (3 / 5)"
proof -
  have d: "PRICING (stubEnv (failWith (Rejected ''offline''))) ''gemini-2.5-flash''
     = Some \<lparr>input = 3 / 10, output = 5 / 2\<rparr>"
    by (simp add: stubEnv_def)
  have other: "PRICING (stubEnv (failWith (Rejected ''offline''))) ''some-other-model'' = None"
    by (simp add: stubEnv_def)
  show ?thesis
    using d other
      calculateCost_formula [OF d, of "''some-other-model''"
        "\<lparr>promptTokenCount = Some 2000, candidatesTokenCount = None, totalTokenCount = Some 2000\<rparr>"]
    by (simp add: Let_def)
qed

section \<open>Router: malformed and empty output\<close>

text \<open>
  Claim C4, as the code has it. When the gateway answers with a text that is not empty
  and \<^verbatim>\<open>JSON.parse\<close> rejects it, the router repairs nothing: it reports the error on
  the console and throws it again, so the caller gets the parse error and no routing
  decision.
\<close>

theorem runRouterAgent_parse_failure_propagates:
  assumes "generateContent env (routerRequest env query) = Inr response"
      and "responseText response = Some t" and "t \<noteq> []"
      and "JSON_parse env t = Inl e"
  shows "runRouterAgent env query = ([console_error ''Router Agent Error:'' e], Inl e)"
  using assms by (simp add: runRouterAgent_def routerFinish_def textOr_def rethrow_def)

theorem runRouterAgent_parse_failure_propagates_witness:
  "JSON_parse (stubEnv (replyWith (answer (Some ''not json'') None))) ''not json'' = Inl SyntaxError
   \<and> runRouterAgent (stubEnv (replyWith (answer (Some ''not json'') None)))
        ''Analyze Acme Corp pricing''
      = ([console_error ''Router Agent Error:'' SyntaxError], Inl SyntaxError)"
proof -
  let ?env = "stubEnv (replyWith (answer (Some ''not json'') None))"
  have gw: "generateContent ?env (routerRequest ?env ''Analyze Acme Corp pricing'')
              = Inr (answer (Some ''not json'') None)"
    by (simp add: stub_gateway replyWith_def)
  have tx: "responseText (answer (Some ''not json'') None) = Some ''not json''"
    by (simp add: answer_def)
  have ne: "''not json'' \<noteq> []" by simp
  have bad: "JSON_parse ?env ''not json'' = Inl SyntaxError"
    by (simp add: stub_parse parseKnown_def partialScoresText_def strengthsOnlyText_def)
  show ?thesis
    using bad runRouterAgent_parse_failure_propagates [OF gw tx ne bad] by simp
qed

text \<open>
  The claim as worded fails on the empty text, which \<^verbatim>\<open>JSON.parse\<close> rejects as it
  rejects any other text that is not JSON: line 43 parses \<^verbatim>\<open>"{}"\<close> in its place, and
  the router returns a log entry of type \<^verbatim>\<open>'success'\<close> without writing to the
  console.
\<close>

theorem runRouterAgent_empty_text_repaired_counterexample:
  "responseText (answer (Some []) None) = Some []
   \<and> JSON_parse (stubEnv (replyWith (answer (Some []) None))) [] = Inl SyntaxError
   \<and> fst (runRouterAgent (stubEnv (replyWith (answer (Some []) None)))
            ''Analyze Acme Corp pricing'') = []
   \<and> map_option (type \<circ> log_entry)
        (returned (runRouterAgent (stubEnv (replyWith (answer (Some []) None)))
           ''Analyze Acme Corp pricing''))
      = Some ''success''"
proof -
  let ?a = "answer (Some []) None"
  let ?env = "stubEnv (replyWith ?a)"
  have gw: "generateContent ?env (routerRequest ?env ''Analyze Acme Corp pricing'') = Inr ?a"
    by (simp add: stub_gateway replyWith_def)
  have parse: "JSON_parse ?env (textOr (responseText ?a) ''{}'') = Inr (JObj [])"
    by (simp add: textOr_def answer_def stub_parse parseKnown_values)
  have bad: "JSON_parse ?env [] = Inl SyntaxError"
    by (simp add: stub_parse parseKnown_def partialScoresText_def strengthsOnlyText_def)
  obtain r where "runRouterAgent ?env ''Analyze Acme Corp pricing'' = ([], Inr r)"
      "type (log_entry r) = ''success''"
    using router_returns_empty_object [OF gw parse stub_pricing] by blast
  then show ?thesis
    using bad by (simp add: returned_def answer_def)
qed

text \<open>
  Claim C9. When the text of the answer is absent or empty, the router parses the
  substitute \<^verbatim>\<open>"{}"\<close>, whose value is the empty object, and returns: nothing is written
  to the console, the log entry is of type \<^verbatim>\<open>'success'\<close>, the result has no property of
  the parsed value, and \<^verbatim>\<open>target_company\<close>, \<^verbatim>\<open>analysis_type\<close> and
  \<^verbatim>\<open>search_queries\<close> are all \<^verbatim>\<open>undefined\<close>. The price table has the entry
  \<^verbatim>\<open>gemini-2.5-flash\<close>, so that the cost of the call can be computed.
\<close>

theorem runRouterAgent_empty_text:
  assumes gw: "generateContent env (routerRequest env query) = Inr response"
      and empty: "responseText response = None \<or> responseText response = Some []"
      and parse: "JSON_parse env ''{}'' = Inr (JObj [])"
      and dflt: "PRICING env ''gemini-2.5-flash'' = Some d"
  shows "\<exists>r. runRouterAgent env query = ([], Inr r)
           \<and> type (log_entry r) = ''success''
           \<and> message (log_entry r) = ''Identified target: undefined (undefined)''
           \<and> properties r = []
           \<and> target_company r = JUndefined
           \<and> analysis_type r = JUndefined
           \<and> search_queries r = JUndefined"
proof -
  have "JSON_parse env (textOr (responseText response) ''{}'') = Inr (JObj [])"
    using empty parse by (auto simp: textOr_def)
  then obtain r where "runRouterAgent env query = ([], Inr r)"
      "type (log_entry r) = ''success''"
      "message (log_entry r) = ''Identified target: undefined (undefined)''"
      "properties r = []"
    using router_returns_empty_object [OF gw _ dflt] by blast
  then show ?thesis
    by (auto simp: target_company_def analysis_type_def search_queries_def lookupProp_def)
qed

theorem runRouterAgent_empty_text_witness:
  "\<exists>r. runRouterAgent (stubEnv (replyWith (answer None None))) ''Analyze Acme Corp pricing''
          = ([], Inr r)
       \<and> type (log_entry r) = ''success''
       \<and> target_company r = JUndefined
       \<and> analysis_type r = JUndefined
       \<and> search_queries r = JUndefined"
proof -
  let ?env = "stubEnv (replyWith (answer None None))"
  have gw: "generateContent ?env (routerRequest ?env ''Analyze Acme Corp pricing'')
              = Inr (answer None None)"
    by (simp add: stub_gateway replyWith_def)
  have empty: "responseText (answer None None) = None \<or> responseText (answer None None) = Some []"
    by (simp add: answer_def)
  have parse: "JSON_parse ?env ''{}'' = Inr (JObj [])"
    by (simp add: stub_parse parseKnown_def)
  show ?thesis
    using runRouterAgent_empty_text [OF gw empty parse stub_pricing] by blast
qed

section \<open>Hunter: the fallback record and the cap on contents\<close>

text \<open>
  Claim C2. When the answer of the gateway has no grounding chunk with both a URI and a
  title, and its text is not empty, \<^verbatim>\<open>discoveredUrls\<close> holds one record before the
  contents are cut: its content is the whole text of the answer, and its URL is
  \<^verbatim>\<open>https://google.com/search?q=\<close> followed by the company name as
  \<^verbatim>\<open>encodeURIComponent\<close> writes it, which is the name itself when all its characters
  are unreserved. The hunter returns that one record, its content cut to 2000 code units.
  The price table has the entry \<^verbatim>\<open>gemini-2.5-flash\<close>, so that the cost of the call
  can be computed.
\<close>

theorem runHunterAgent_fallback:
  assumes gw: "generateContent env (hunterRequest env company queries) = Inr response"
      and none: "filter hasUriAndTitle (groundingChunksOf response) = []"
      and tx: "responseText response = Some t" and ne: "t \<noteq> []"
      and dflt: "PRICING env ''gemini-2.5-flash'' = Some d"
  shows "foundUrls company response =
           [\<lparr>url = ''https://google.com/search?q='' @ encodeURIComponent company,
             title = company @ '' Search Results'',
             snippet = take 150 t @ ''...'',
             content = t\<rparr>]
         \<and> (\<exists>r. runHunterAgent env company queries = ([], Inr r)
               \<and> discoveredUrls r =
                   [\<lparr>url = ''https://google.com/search?q='' @ encodeURIComponent company,
                     title = company @ '' Search Results'',
                     snippet = take 150 t @ ''...'',
                     content = take 2000 t\<rparr>])
         \<and> ((\<forall>c\<in>set company. uriUnreserved c) \<longrightarrow>
                encodeURIComponent company = company)"
proof -
  have found: "foundUrls company response =
           [\<lparr>url = ''https://google.com/search?q='' @ encodeURIComponent company,
             title = company @ '' Search Results'',
             snippet = take 150 t @ ''...'',
             content = t\<rparr>]"
    using none tx ne by (simp add: foundUrls_def groundedUrls_def)
  obtain r where r: "runHunterAgent env company queries = ([], Inr r)"
      "discoveredUrls r = optimizedUrls (foundUrls company response)"
    using hunter_returns [OF gw dflt] by blast
  have "discoveredUrls r =
                   [\<lparr>url = ''https://google.com/search?q='' @ encodeURIComponent company,
                     title = company @ '' Search Results'',
                     snippet = take 150 t @ ''...'',
                     content = take 2000 t\<rparr>]"
    using r(2) found by (simp add: optimizedUrls_def)
  with found r(1) show ?thesis
    using encodeURIComponent_unreserved [of company] by blast
qed

theorem runHunterAgent_fallback_witness:
  "(\<exists>r. runHunterAgent (stubEnv (replyWith (answer (Some ''Acme Corp raised prices.'') None)))
          ''Acme Corp'' [''pricing''] = ([], Inr r)
       \<and> discoveredUrls r =
           [\<lparr>url = ''https://google.com/search?q=Acme%20Corp'',
             title = ''Acme Corp Search Results'',
             snippet = ''Acme Corp raised prices....'',
             content = ''Acme Corp raised prices.''\<rparr>])
   \<and> (\<exists>r. runHunterAgent (stubEnv (replyWith (answer (Some ''Acme Corp raised prices.'') None)))
          ''Acme'' [] = ([], Inr r)
       \<and> map url (discoveredUrls r) = [''https://google.com/search?q=Acme''])"
proof -
  let ?resp = "answer (Some ''Acme Corp raised prices.'') None"
  let ?env = "stubEnv (replyWith ?resp)"
  have gw: "generateContent ?env (hunterRequest ?env ''Acme Corp'' [''pricing'']) = Inr ?resp"
    by (simp add: stub_gateway replyWith_def)
  have none: "filter hasUriAndTitle (groundingChunksOf ?resp) = []"
    by (simp add: groundingChunksOf_def answer_def)
  have tx: "responseText ?resp = Some ''Acme Corp raised prices.''"
    by (simp add: answer_def)
  have ne: "''Acme Corp raised prices.'' \<noteq> []" by simp
  have enc: "encodeURIComponent ''Acme Corp'' = ''Acme%20Corp''"
    by (simp add: encodeURIComponent_def encodeUnit_def uriUnreserved_def percent_def hexDigit_def)
  have one: "\<exists>r. runHunterAgent ?env ''Acme Corp'' [''pricing''] = ([], Inr r)
       \<and> discoveredUrls r =
           [\<lparr>url = ''https://google.com/search?q=Acme%20Corp'',
             title = ''Acme Corp Search Results'',
             snippet = ''Acme Corp raised prices....'',
             content = ''Acme Corp raised prices.''\<rparr>]"
    using runHunterAgent_fallback [OF gw none tx ne stub_pricing] enc by simp
  have gw': "generateContent ?env (hunterRequest ?env ''Acme'' []) = Inr ?resp"
    by (simp add: stub_gateway replyWith_def)
  have plain: "\<forall>c\<in>set ''Acme''. uriUnreserved c"
    by (simp add: uriUnreserved_def)
  have two: "\<exists>r. runHunterAgent ?env ''Acme'' [] = ([], Inr r)
       \<and> map url (discoveredUrls r) = [''https://google.com/search?q=Acme'']"
    using runHunterAgent_fallback [OF gw' none tx ne stub_pricing] plain by auto
  show ?thesis using one two by blast
qed

text \<open>
  Claim C7. Whatever the gateway answers, every record the hunter returns, from a grounding
  chunk or from the fallback, has a content of at most 2000 code units: the first 2000 of
  the text of the answer.
\<close>

theorem runHunterAgent_content_capped:
  assumes gw: "generateContent env (hunterRequest env company queries) = Inr response"
      and run: "runHunterAgent env company queries = (cs, Inr r)"
  shows "\<forall>u\<in>set (discoveredUrls r).
           length (content u) \<le> 2000
           \<and> content u = take 2000 (textOr (responseText response) '''')"
proof -
  have all_text: "\<forall>u\<in>set (foundUrls company response).
      content u = textOr (responseText response) ''''"
    by (auto simp: foundUrls_def groundedUrls_def textOr_def split: option.split)
  have "discoveredUrls r = optimizedUrls (foundUrls company response)"
    using hunter_returned [OF gw run] .
  then show ?thesis
    using all_text by (auto simp: optimizedUrls_def)
qed

theorem runHunterAgent_content_capped_witness:
  "\<exists>r. runHunterAgent (stubEnv (replyWith groundedAnswer)) ''Acme Corp'' [] = ([], Inr r)
       \<and> map url (discoveredUrls r) = [''https://acme.example/pricing'']
       \<and> map (\<lambda>u. length (content u)) (discoveredUrls r) = [2000]
       \<and> length longText = 2500"
proof -
  let ?env = "stubEnv (replyWith groundedAnswer)"
  have gw: "generateContent ?env (hunterRequest ?env ''Acme Corp'' []) = Inr groundedAnswer"
    by (simp add: stub_gateway replyWith_def)
  obtain r where r: "runHunterAgent ?env ''Acme Corp'' [] = ([], Inr r)"
      "discoveredUrls r = optimizedUrls (foundUrls ''Acme Corp'' groundedAnswer)"
    using hunter_returns [OF gw stub_pricing] by blast
  have chunks: "filter hasUriAndTitle (groundingChunksOf groundedAnswer) =
      [\<lparr>web = Some \<lparr>uri = Some ''https://acme.example/pricing'', title = Some ''Acme pricing''\<rparr>\<rparr>]"
    by (simp add: groundingChunksOf_def groundedAnswer_def hasUriAndTitle_def nonEmpty_def)
  have urls: "map url (discoveredUrls r) = [''https://acme.example/pricing'']"
    using r(2) chunks
    by (simp add: optimizedUrls_def foundUrls_def groundedUrls_def groundedAnswer_def)
  have len: "length (discoveredUrls r) = 1"
    using urls by (metis length_map length_Cons list.size(3) One_nat_def)
  have whole: "textOr (responseText groundedAnswer) '''' = longText"
    by (simp add: textOr_def groundedAnswer_def longText_def)
  have cap: "\<forall>u\<in>set (discoveredUrls r). content u = take 2000 longText"
    using runHunterAgent_content_capped [OF gw r(1)] whole by simp
  have "map (\<lambda>u. length (content u)) (discoveredUrls r) = [2000]"
  proof -
    obtain u where u: "discoveredUrls r = [u]"
      using len by (cases "discoveredUrls r") auto
    then have "content u = take 2000 longText" using cap by simp
    then show ?thesis using u by (simp add: longText_def)
  qed
  with r(1) urls show ?thesis by (simp add: longText_def)
qed

section \<open>Scraper: the prompt\<close>

text \<open>
  Claim C8. The request the scraper makes of the gateway is the scraper model, no
  configuration, and a prompt that is spelled out here in full. For no sources at all the
  prompt is the fixed head followed by the instruction
  \<^verbatim>\<open>No specific URLs found, please analyze general knowledge about the company.\<close>
  For one source or more it is the head followed by one
  \<^verbatim>\<open>Source\<close>/\<^verbatim>\<open>Title\<close>/\<^verbatim>\<open>Summary\<close> block for each source, in order, every block
  after the first preceded by an empty line, the summary being the first 2000 code units
  of the content. The outcome of the stage is decided by what the gateway makes of that
  request: its failure is thrown again, its answer returned as the extracted content.
\<close>

theorem runScraperAgent_prompt:
  "scraperRequest env [] =
     \<lparr>model = MODELS_SCRAPER env,
      contents =
        ''You are a Data Engineer. Clean and consolidate the following competitive intelligence data. \<newline>''
        @ ''      Remove duplicates, noise, and marketing fluff. Preserve facts, numbers, dates, and pricing.\<newline>''
        @ ''      Keep the output concise (under 4000 tokens).\<newline>''
        @ ''      \<newline>''
        @ ''      RAW DATA:\<newline>''
        @ ''      No specific URLs found, please analyze general knowledge about the company.'',
      config = None\<rparr>
   \<and> scraperRequest env (u # us) =
     \<lparr>model = MODELS_SCRAPER env,
      contents =
        ''You are a Data Engineer. Clean and consolidate the following competitive intelligence data. \<newline>''
        @ ''      Remove duplicates, noise, and marketing fluff. Preserve facts, numbers, dates, and pricing.\<newline>''
        @ ''      Keep the output concise (under 4000 tokens).\<newline>''
        @ ''      \<newline>''
        @ ''      RAW DATA:\<newline>''
        @ ''      ''
        @ ''Source: '' @ url u @ ''\<newline>Title: '' @ title u
        @ ''\<newline>Summary: '' @ take 2000 (content u)
        @ concat
            (map (\<lambda>v. ''\<newline>\<newline>'' @ ''Source: '' @ url v @ ''\<newline>Title: '' @ title v
                       @ ''\<newline>Summary: '' @ take 2000 (content v)) us),
      config = None\<rparr>
   \<and> (\<forall>e. generateContent env (scraperRequest env urls) = Inl e \<longrightarrow>
          runScraperAgent env urls = ([console_error ''Scraper Agent Error:'' e], Inl e))
   \<and> (\<forall>response d.
          generateContent env (scraperRequest env urls) = Inr response
          \<and> PRICING env ''gemini-2.5-flash'' = Some d \<longrightarrow>
          (\<exists>r. runScraperAgent env urls = ([], Inr r)
             \<and> extractedContent r =
                 (case responseText response of
                    None \<Rightarrow> ''Data extracted but no summary generated.''
                  | Some t \<Rightarrow>
                      if t = [] then ''Data extracted but no summary generated.'' else t)))"
proof (intro conjI allI impI)
  show "scraperRequest env [] =
     \<lparr>model = MODELS_SCRAPER env,
      contents =
        ''You are a Data Engineer. Clean and consolidate the following competitive intelligence data. \<newline>''
        @ ''      Remove duplicates, noise, and marketing fluff. Preserve facts, numbers, dates, and pricing.\<newline>''
        @ ''      Keep the output concise (under 4000 tokens).\<newline>''
        @ ''      \<newline>''
        @ ''      RAW DATA:\<newline>''
        @ ''      No specific URLs found, please analyze general knowledge about the company.'',
      config = None\<rparr>"
    by (simp add: scraperRequest_def rawText_def)
next
  have "rawText (u # us) =
      ''Source: '' @ url u @ ''\<newline>Title: '' @ title u
        @ ''\<newline>Summary: '' @ take 2000 (content u)
        @ concat
            (map (\<lambda>v. ''\<newline>\<newline>'' @ ''Source: '' @ url v @ ''\<newline>Title: '' @ title v
                       @ ''\<newline>Summary: '' @ take 2000 (content v)) us)"
    by (simp add: rawText_def join_Cons sourceBlock_def comp_def)
  then show "scraperRequest env (u # us) =
     \<lparr>model = MODELS_SCRAPER env,
      contents =
        ''You are a Data Engineer. Clean and consolidate the following competitive intelligence data. \<newline>''
        @ ''      Remove duplicates, noise, and marketing fluff. Preserve facts, numbers, dates, and pricing.\<newline>''
        @ ''      Keep the output concise (under 4000 tokens).\<newline>''
        @ ''      \<newline>''
        @ ''      RAW DATA:\<newline>''
        @ ''      ''
        @ ''Source: '' @ url u @ ''\<newline>Title: '' @ title u
        @ ''\<newline>Summary: '' @ take 2000 (content u)
        @ concat
            (map (\<lambda>v. ''\<newline>\<newline>'' @ ''Source: '' @ url v @ ''\<newline>Title: '' @ title v
                       @ ''\<newline>Summary: '' @ take 2000 (content v)) us),
      config = None\<rparr>"
    by (simp add: scraperRequest_def)
next
  fix e
  assume "generateContent env (scraperRequest env urls) = Inl e"
  then show "runScraperAgent env urls = ([console_error ''Scraper Agent Error:'' e], Inl e)"
    by (simp add: runScraperAgent_def scraperFinish_def rethrow_def)
next
  fix response d
  assume a: "generateContent env (scraperRequest env urls) = Inr response
          \<and> PRICING env ''gemini-2.5-flash'' = Some d"
  then obtain c where "calculateCost env (MODELS_SCRAPER env) (usageMetadata response) = Inr c"
    using cost_defined by blast
  with a show "\<exists>r. runScraperAgent env urls = ([], Inr r)
             \<and> extractedContent r =
                 (case responseText response of
                    None \<Rightarrow> ''Data extracted but no summary generated.''
                  | Some t \<Rightarrow>
                      if t = [] then ''Data extracted but no summary generated.'' else t)"
    by (simp add: runScraperAgent_def scraperFinish_def rethrow_def split: option.split)
qed

theorem runScraperAgent_prompt_witness:
  "runScraperAgent (stubEnv echoPrompt) [] =
       ([console_error ''Scraper Agent Error:''
           (Rejected
              (''You are a Data Engineer. Clean and consolidate the following competitive intelligence data. \<newline>''
        @ ''      Remove duplicates, noise, and marketing fluff. Preserve facts, numbers, dates, and pricing.\<newline>''
        @ ''      Keep the output concise (under 4000 tokens).\<newline>''
        @ ''      \<newline>''
        @ ''      RAW DATA:\<newline>''
        @ ''      No specific URLs found, please analyze general knowledge about the company.''))],
        Inl (Rejected
              (''You are a Data Engineer. Clean and consolidate the following competitive intelligence data. \<newline>''
        @ ''      Remove duplicates, noise, and marketing fluff. Preserve facts, numbers, dates, and pricing.\<newline>''
        @ ''      Keep the output concise (under 4000 tokens).\<newline>''
        @ ''      \<newline>''
        @ ''      RAW DATA:\<newline>''
        @ ''      No specific URLs found, please analyze general knowledge about the company.'')))
   \<and> runScraperAgent (stubEnv echoPrompt) (take 1 twoSources) =
       ([console_error ''Scraper Agent Error:''
           (Rejected
              (''You are a Data Engineer. Clean and consolidate the following competitive intelligence data. \<newline>''
        @ ''      Remove duplicates, noise, and marketing fluff. Preserve facts, numbers, dates, and pricing.\<newline>''
        @ ''      Keep the output concise (under 4000 tokens).\<newline>''
        @ ''      \<newline>''
        @ ''      RAW DATA:\<newline>''
        @ ''      Source: https://acme.example/pricing\<newline>Title: Acme pricing\<newline>Summary: Acme raised prices.''))],
        Inl (Rejected
              (''You are a Data Engineer. Clean and consolidate the following competitive intelligence data. \<newline>''
        @ ''      Remove duplicates, noise, and marketing fluff. Preserve facts, numbers, dates, and pricing.\<newline>''
        @ ''      Keep the output concise (under 4000 tokens).\<newline>''
        @ ''      \<newline>''
        @ ''      RAW DATA:\<newline>''
        @ ''      Source: https://acme.example/pricing\<newline>Title: Acme pricing\<newline>Summary: Acme raised prices.'')))
   \<and> runScraperAgent (stubEnv echoPrompt) twoSources =
       ([console_error ''Scraper Agent Error:''
           (Rejected
              (''You are a Data Engineer. Clean and consolidate the following competitive intelligence data. \<newline>''
        @ ''      Remove duplicates, noise, and marketing fluff. Preserve facts, numbers, dates, and pricing.\<newline>''
        @ ''      Keep the output concise (under 4000 tokens).\<newline>''
        @ ''      \<newline>''
        @ ''      RAW DATA:\<newline>''
        @ ''      Source: https://acme.example/pricing\<newline>Title: Acme pricing\<newline>Summary: Acme raised prices.''
        @ ''\<newline>\<newline>''
        @ ''Source: https://acme.example/news\<newline>Title: Acme news\<newline>Summary: ''
        @ replicate 2000 (CHR ''x'')))],
        Inl (Rejected
              (''You are a Data Engineer. Clean and consolidate the following competitive intelligence data. \<newline>''
        @ ''      Remove duplicates, noise, and marketing fluff. Preserve facts, numbers, dates, and pricing.\<newline>''
        @ ''      Keep the output concise (under 4000 tokens).\<newline>''
        @ ''      \<newline>''
        @ ''      RAW DATA:\<newline>''
        @ ''      Source: https://acme.example/pricing\<newline>Title: Acme pricing\<newline>Summary: Acme raised prices.''
        @ ''\<newline>\<newline>''
        @ ''Source: https://acme.example/news\<newline>Title: Acme news\<newline>Summary: ''
        @ replicate 2000 (CHR ''x''))))
   \<and> (\<exists>r. runScraperAgent (stubEnv (replyWith (answer (Some ''Acme raised prices in 2024.'') None)))
          twoSources = ([], Inr r)
        \<and> extractedContent r = ''Acme raised prices in 2024.'')
   \<and> (\<exists>r. runScraperAgent (stubEnv (replyWith (answer (Some []) None))) [] = ([], Inr r)
        \<and> extractedContent r = ''Data extracted but no summary generated.'')"
proof -
  have cut: "take 2000 longText = replicate 2000 (CHR ''x'')"
    by (simp add: longText_def)
  have two: "twoSources =
      [\<lparr>url = ''https://acme.example/pricing'', title = ''Acme pricing'',
        snippet = ''Acme raised...'', content = ''Acme raised prices.''\<rparr>,
       \<lparr>url = ''https://acme.example/news'', title = ''Acme news'',
        snippet = ''xxx...'', content = longText\<rparr>]"
    by (simp add: twoSources_def)
  have echoed: "runScraperAgent (stubEnv echoPrompt) urls =
      ([console_error ''Scraper Agent Error:''
          (Rejected (contents (scraperRequest (stubEnv echoPrompt) urls)))],
       Inl (Rejected (contents (scraperRequest (stubEnv echoPrompt) urls))))" for urls
    using runScraperAgent_prompt [of "stubEnv echoPrompt" undefined "[]" urls]
    by (simp add: stub_gateway echoPrompt_def)
  have none: "contents (scraperRequest (stubEnv echoPrompt) []) =
        ''You are a Data Engineer. Clean and consolidate the following competitive intelligence data. \<newline>''
        @ ''      Remove duplicates, noise, and marketing fluff. Preserve facts, numbers, dates, and pricing.\<newline>''
        @ ''      Keep the output concise (under 4000 tokens).\<newline>''
        @ ''      \<newline>''
        @ ''      RAW DATA:\<newline>''
        @ ''      No specific URLs found, please analyze general knowledge about the company.''"
    using runScraperAgent_prompt [of "stubEnv echoPrompt" undefined "[]" "[]"] by simp
  have one: "contents (scraperRequest (stubEnv echoPrompt) (take 1 twoSources)) =
        ''You are a Data Engineer. Clean and consolidate the following competitive intelligence data. \<newline>''
        @ ''      Remove duplicates, noise, and marketing fluff. Preserve facts, numbers, dates, and pricing.\<newline>''
        @ ''      Keep the output concise (under 4000 tokens).\<newline>''
        @ ''      \<newline>''
        @ ''      RAW DATA:\<newline>''
        @ ''      Source: https://acme.example/pricing\<newline>Title: Acme pricing\<newline>Summary: Acme raised prices.''"
    using runScraperAgent_prompt
      [of "stubEnv echoPrompt"
          "\<lparr>url = ''https://acme.example/pricing'', title = ''Acme pricing'',
            snippet = ''Acme raised...'', content = ''Acme raised prices.''\<rparr>" "[]" "[]"]
    by (simp add: two)
  have both: "contents (scraperRequest (stubEnv echoPrompt) twoSources) =
        ''You are a Data Engineer. Clean and consolidate the following competitive intelligence data. \<newline>''
        @ ''      Remove duplicates, noise, and marketing fluff. Preserve facts, numbers, dates, and pricing.\<newline>''
        @ ''      Keep the output concise (under 4000 tokens).\<newline>''
        @ ''      \<newline>''
        @ ''      RAW DATA:\<newline>''
        @ ''      Source: https://acme.example/pricing\<newline>Title: Acme pricing\<newline>Summary: Acme raised prices.''
        @ ''\<newline>\<newline>''
        @ ''Source: https://acme.example/news\<newline>Title: Acme news\<newline>Summary: ''
        @ replicate 2000 (CHR ''x'')"
    using runScraperAgent_prompt
      [of "stubEnv echoPrompt"
          "\<lparr>url = ''https://acme.example/pricing'', title = ''Acme pricing'',
            snippet = ''Acme raised...'', content = ''Acme raised prices.''\<rparr>"
          "[\<lparr>url = ''https://acme.example/news'', title = ''Acme news'',
             snippet = ''xxx...'', content = longText\<rparr>]" "[]"]
    by (simp add: two cut)
  have answered: "\<exists>r. runScraperAgent (stubEnv (replyWith (answer (Some ''Acme raised prices in 2024.'') None)))
          twoSources = ([], Inr r)
        \<and> extractedContent r = ''Acme raised prices in 2024.''"
    using runScraperAgent_prompt
      [of "stubEnv (replyWith (answer (Some ''Acme raised prices in 2024.'') None))"
          undefined "[]" twoSources]
      stub_pricing [of "replyWith (answer (Some ''Acme raised prices in 2024.'') None)"]
    by (simp add: stub_gateway replyWith_def answer_def)
  have silent: "\<exists>r. runScraperAgent (stubEnv (replyWith (answer (Some []) None))) [] = ([], Inr r)
        \<and> extractedContent r = ''Data extracted but no summary generated.''"
    using runScraperAgent_prompt
      [of "stubEnv (replyWith (answer (Some []) None))" undefined "[]" "[]"]
      stub_pricing [of "replyWith (answer (Some []) None)"]
    by (simp add: stub_gateway replyWith_def answer_def)
  show ?thesis
    unfolding echoed none one both using answered silent by blast
qed

section \<open>Analyst: the two fallbacks\<close>

text \<open>
  Claim C5, as the code has it. When the gateway answers with a text that is not empty
  and \<^verbatim>\<open>JSON.parse\<close> rejects it, the analyst does not fail: it warns on the console
  (\<^verbatim>\<open>console.warn\<close>, and no \<^verbatim>\<open>console.error\<close>), and returns the SWOT value whose
  four lists are empty and whose five scores are 0, with a log entry of type
  \<^verbatim>\<open>'success'\<close>. The price table has the entry \<^verbatim>\<open>gemini-2.5-flash\<close>, so that the
  cost of the call can be computed.
\<close>

theorem runAnalystAgent_parse_failure:
  assumes gw: "generateContent env (analystRequest env c) = Inr response"
      and tx: "responseText response = Some t" and ne: "t \<noteq> []"
      and bad: "JSON_parse env t = Inl e"
      and dflt: "PRICING env ''gemini-2.5-flash'' = Some d"
  shows "\<exists>r. runAnalystAgent env c
                = ([console_warn ''JSON parse failed, using fallback empty SWOT'' e], Inr r)
           \<and> swot r =
               JObj [(''strengths'', JArr [] []), (''weaknesses'', JArr [] []),
                     (''opportunities'', JArr [] []), (''threats'', JArr [] []),
                     (''scores'',
                      JObj [(''innovation'', JNum 0), (''market_share'', JNum 0),
                            (''pricing_power'', JNum 0), (''brand_reputation'', JNum 0),
                            (''velocity'', JNum 0)])]
           \<and> type (log_entry r) = ''success''
           \<and> agent (log_entry r) = ANALYST"
proof -
  have "JSON_parse env (textOr (responseText response) ''{}'') = Inl e"
    using tx ne bad by (simp add: textOr_def)
  then have parsed: "parseSWOT env response
      = ([console_warn ''JSON parse failed, using fallback empty SWOT'' e], emptySWOT)"
    by (rule parseSWOT_failure)
  have nums: "numbersOf (map snd [(''innovation'', JNum 0), (''market_share'', JNum 0),
      (''pricing_power'', JNum 0), (''brand_reputation'', JNum 0), (''velocity'', JNum 0)])
      = Some [0, 0, 0, 0, 0]"
    by simp
  obtain r where "runAnalystAgent env c
                = ([console_warn ''JSON parse failed, using fallback empty SWOT'' e], Inr r)"
      "swot r = emptySWOT" "type (log_entry r) = ''success''"
    using analyst_numeric_scores [OF gw dflt parsed emptySWOT_scores nums] by blast
  moreover have "agent (log_entry r) = ANALYST"
    using calculation(1) gw
    by (auto simp: runAnalystAgent_def analystFinish_def rethrow_Inr_iff andThen_Inr_iff
        split: prod.splits)
  ultimately show ?thesis by (auto simp: emptySWOT_def)
qed

theorem runAnalystAgent_parse_failure_witness:
  "JSON_parse (stubEnv (replyWith (answer (Some ''not json'') None))) ''not json'' = Inl SyntaxError
   \<and> (\<exists>r. runAnalystAgent (stubEnv (replyWith (answer (Some ''not json'') None)))
            ''Acme Corp raised prices in 2024.''
          = ([console_warn ''JSON parse failed, using fallback empty SWOT'' SyntaxError], Inr r)
        \<and> swot r = emptySWOT
        \<and> type (log_entry r) = ''success'')"
proof -
  let ?resp = "answer (Some ''not json'') None"
  let ?env = "stubEnv (replyWith ?resp)"
  have gw: "generateContent ?env (analystRequest ?env ''Acme Corp raised prices in 2024.'') = Inr ?resp"
    by (simp add: stub_gateway replyWith_def)
  have tx: "responseText ?resp = Some ''not json''"
    by (simp add: answer_def)
  have ne: "''not json'' \<noteq> []" by simp
  have bad: "JSON_parse ?env ''not json'' = Inl SyntaxError"
    by (simp add: stub_parse parseKnown_def partialScoresText_def strengthsOnlyText_def)
  show ?thesis
    using bad runAnalystAgent_parse_failure [OF gw tx ne bad stub_pricing]
    by (auto simp: emptySWOT_def)
qed

text \<open>
  The claim as worded fails on the empty text, which \<^verbatim>\<open>JSON.parse\<close> rejects as it
  rejects any other text that is not JSON: line 219 parses \<^verbatim>\<open>"{}"\<close> in its place, and
  the analyst returns an object with the five scores at 50 and no list, without a
  warning.
\<close>

theorem runAnalystAgent_empty_text_counterexample:
  "responseText (answer (Some []) None) = Some []
   \<and> JSON_parse (stubEnv (replyWith (answer (Some []) None))) [] = Inl SyntaxError
   \<and> fst (runAnalystAgent (stubEnv (replyWith (answer (Some []) None)))
            ''Acme Corp raised prices in 2024.'') = []
   \<and> map_option swot
        (returned (runAnalystAgent (stubEnv (replyWith (answer (Some []) None)))
           ''Acme Corp raised prices in 2024.''))
      = Some (JObj [(''scores'',
                    JObj [(''innovation'', JNum 50), (''market_share'', JNum 50),
                          (''pricing_power'', JNum 50), (''brand_reputation'', JNum 50),
                          (''velocity'', JNum 50)])])"
proof -
  let ?a = "answer (Some []) None"
  let ?env = "stubEnv (replyWith ?a)"
  have gw: "generateContent ?env (analystRequest ?env ''Acme Corp raised prices in 2024.'') = Inr ?a"
    by (simp add: stub_gateway replyWith_def)
  have bad: "JSON_parse ?env [] = Inl SyntaxError"
    by (simp add: stub_parse parseKnown_def partialScoresText_def strengthsOnlyText_def)
  have parsed: "parseSWOT ?env ?a = ([], JObj [(''scores'', defaultScores)])"
    by (simp add: parseSWOT_def textOr_def answer_def stub_parse parseKnown_values lookupProp_def)
  obtain r where "runAnalystAgent ?env ''Acme Corp raised prices in 2024.'' = ([], Inr r)"
      "swot r = JObj [(''scores'', defaultScores)]"
    using analyst_numeric_scores [OF gw stub_pricing parsed,
        of "[(''innovation'', JNum 50), (''market_share'', JNum 50), (''pricing_power'', JNum 50),
             (''brand_reputation'', JNum 50), (''velocity'', JNum 50)]" "[50, 50, 50, 50, 50]"]
    by (auto simp: lookupProp_def defaultScores_def)
  then show ?thesis
    using bad by (simp add: returned_def answer_def defaultScores_def)
qed

text \<open>
  Claim C1, as the code has it. The scores of the returned SWOT value are the five names
  at 0 when \<^verbatim>\<open>JSON.parse\<close> fails, and when it yields a value that cannot take a property
  (\<^verbatim>\<open>null\<close>, a number, a string, a boolean); they are the five names at 50 when it
  yields an object or array whose \<^verbatim>\<open>scores\<close> is absent or falsy, the rest of the value
  unchanged; in these cases the value is fully scored and the analyst returns. When
  \<^verbatim>\<open>scores\<close> is present and truthy the parsed value is returned as it is: nothing is
  filled in and nothing is checked.
\<close>

theorem runAnalystAgent_scores:
  assumes gw: "generateContent env (analystRequest env c) = Inr response"
      and dflt: "PRICING env ''gemini-2.5-flash'' = Some d"
  shows
    "(\<forall>e. JSON_parse env (textOr (responseText response) ''{}'') = Inl e \<longrightarrow>
        (\<exists>cs r. runAnalystAgent env c = (cs, Inr r)
           \<and> getProp (swot r) ''scores'' =
               Inr (JObj [(''innovation'', JNum 0), (''market_share'', JNum 0),
                          (''pricing_power'', JNum 0), (''brand_reputation'', JNum 0),
                          (''velocity'', JNum 0)])
           \<and> fullyScored (swot r)))
   \<and> (\<forall>v. JSON_parse env (textOr (responseText response) ''{}'') = Inr v \<and> \<not> isObject v \<longrightarrow>
        (\<exists>cs r. runAnalystAgent env c = (cs, Inr r)
           \<and> getProp (swot r) ''scores'' =
               Inr (JObj [(''innovation'', JNum 0), (''market_share'', JNum 0),
                          (''pricing_power'', JNum 0), (''brand_reputation'', JNum 0),
                          (''velocity'', JNum 0)])
           \<and> fullyScored (swot r)))
   \<and> (\<forall>v s. JSON_parse env (textOr (responseText response) ''{}'') = Inr v \<and> isObject v
          \<and> getProp v ''scores'' = Inr s \<and> \<not> truthy s \<longrightarrow>
        (\<exists>r. runAnalystAgent env c = ([], Inr r)
           \<and> setProp v ''scores'' defaultScores = Inr (swot r)
           \<and> getProp (swot r) ''scores'' =
               Inr (JObj [(''innovation'', JNum 50), (''market_share'', JNum 50),
                          (''pricing_power'', JNum 50), (''brand_reputation'', JNum 50),
                          (''velocity'', JNum 50)])
           \<and> fullyScored (swot r)))
   \<and> (\<forall>v s cs r. JSON_parse env (textOr (responseText response) ''{}'') = Inr v
          \<and> getProp v ''scores'' = Inr s \<and> truthy s
          \<and> runAnalystAgent env c = (cs, Inr r) \<longrightarrow>
        swot r = v \<and> getProp (swot r) ''scores'' = Inr s)"
proof -
  let ?P = "JSON_parse env (textOr (responseText response) ''{}'')"
  let ?zeros = "JObj [(''innovation'', JNum 0), (''market_share'', JNum 0),
                      (''pricing_power'', JNum 0), (''brand_reputation'', JNum 0),
                      (''velocity'', JNum 0)]"
  have nums0: "numbersOf (map snd [(''innovation'', JNum 0), (''market_share'', JNum 0),
      (''pricing_power'', JNum 0), (''brand_reputation'', JNum 0), (''velocity'', JNum 0)])
      = Some [0, 0, 0, 0, 0]"
    by simp
  have nums50: "numbersOf (map snd [(''innovation'', JNum 50), (''market_share'', JNum 50),
      (''pricing_power'', JNum 50), (''brand_reputation'', JNum 50), (''velocity'', JNum 50)])
      = Some [50, 50, 50, 50, 50]"
    by simp
  have fallback: "\<exists>cs r. runAnalystAgent env c = (cs, Inr r)
           \<and> getProp (swot r) ''scores'' = Inr ?zeros \<and> fullyScored (swot r)"
    if p: "parseSWOT env response = (warned, emptySWOT)" for warned
  proof -
    obtain r where "runAnalystAgent env c = (warned, Inr r)" "swot r = emptySWOT"
      using analyst_numeric_scores [OF gw dflt p emptySWOT_scores nums0] by blast
    then show ?thesis
      using emptySWOT_scores fullyScored_empty by auto
  qed
  have failed: "\<exists>cs r. runAnalystAgent env c = (cs, Inr r)
           \<and> getProp (swot r) ''scores'' = Inr ?zeros \<and> fullyScored (swot r)"
    if "?P = Inl e" for e
    using fallback [OF parseSWOT_failure [OF that]] .
  have primitive: "\<exists>cs r. runAnalystAgent env c = (cs, Inr r)
           \<and> getProp (swot r) ''scores'' = Inr ?zeros \<and> fullyScored (swot r)"
    if "?P = Inr v" "\<not> isObject v" for v
    using fallback [OF parseSWOT_primitive [OF that]] .
  have backfill: "\<exists>r. runAnalystAgent env c = ([], Inr r)
           \<and> setProp v ''scores'' defaultScores = Inr (swot r)
           \<and> getProp (swot r) ''scores'' = Inr defaultScores
           \<and> fullyScored (swot r)"
    if q: "?P = Inr v" "isObject v" "getProp v ''scores'' = Inr s" "\<not> truthy s" for v s
  proof -
    obtain v' where v': "parseSWOT env response = ([], v')"
        "setProp v ''scores'' defaultScores = Inr v'"
        "getProp v' ''scores'' = Inr defaultScores"
      using parseSWOT_backfill [OF q] by blast
    obtain r where "runAnalystAgent env c = ([], Inr r)" "swot r = v'"
      using analyst_numeric_scores [OF gw dflt v'(1) v'(3) [unfolded defaultScores_def] nums50]
      by blast
    then show ?thesis
      using v' fullyScored_default by auto
  qed
  have kept: "swot r = v \<and> getProp (swot r) ''scores'' = Inr s"
    if "?P = Inr v" "getProp v ''scores'' = Inr s" "truthy s"
       "runAnalystAgent env c = (cs, Inr r)" for v s cs r
    using analyst_swot_is_parsed [OF gw parseSWOT_kept [OF that(1,2,3)] that(4)] that(2)
    by simp
  show ?thesis
  proof (intro conjI allI impI)
    fix e assume "?P = Inl e"
    then show "\<exists>cs r. runAnalystAgent env c = (cs, Inr r)
           \<and> getProp (swot r) ''scores'' = Inr ?zeros \<and> fullyScored (swot r)"
      by (rule failed)
  next
    fix v assume "?P = Inr v \<and> \<not> isObject v"
    then show "\<exists>cs r. runAnalystAgent env c = (cs, Inr r)
           \<and> getProp (swot r) ''scores'' = Inr ?zeros \<and> fullyScored (swot r)"
      using primitive by blast
  next
    fix v s
    assume "?P = Inr v \<and> isObject v \<and> getProp v ''scores'' = Inr s \<and> \<not> truthy s"
    then have "\<exists>r. runAnalystAgent env c = ([], Inr r)
           \<and> setProp v ''scores'' defaultScores = Inr (swot r)
           \<and> getProp (swot r) ''scores'' = Inr defaultScores
           \<and> fullyScored (swot r)"
      using backfill by blast
    then show "\<exists>r. runAnalystAgent env c = ([], Inr r)
           \<and> setProp v ''scores'' defaultScores = Inr (swot r)
           \<and> getProp (swot r) ''scores'' =
               Inr (JObj [(''innovation'', JNum 50), (''market_share'', JNum 50),
                          (''pricing_power'', JNum 50), (''brand_reputation'', JNum 50),
                          (''velocity'', JNum 50)])
           \<and> fullyScored (swot r)"
      by (simp add: defaultScores_def)
  next
    fix v s cs r
    assume a: "?P = Inr v \<and> getProp v ''scores'' = Inr s \<and> truthy s
          \<and> runAnalystAgent env c = (cs, Inr r)"
    then show "swot r = v" using kept by blast
    from a show "getProp (swot r) ''scores'' = Inr s" using kept by blast
  qed
qed

theorem runAnalystAgent_scores_witness:
  "(\<exists>cs r. runAnalystAgent (stubEnv (replyWith (answer (Some ''not json'') None)))
        ''Acme Corp raised prices in 2024.'' = (cs, Inr r)
      \<and> fullyScored (swot r))
   \<and> (\<exists>cs r. runAnalystAgent (stubEnv (replyWith (answer (Some ''null'') None)))
        ''Acme Corp raised prices in 2024.'' = (cs, Inr r)
      \<and> fullyScored (swot r))
   \<and> (\<exists>r. runAnalystAgent (stubEnv (replyWith (answer (Some strengthsOnlyText) None)))
        ''Acme Corp raised prices in 2024.'' = ([], Inr r)
      \<and> swot r =
          JObj [(''strengths'', JArr [JStr ''brand''] []),
                (''scores'',
                 JObj [(''innovation'', JNum 50), (''market_share'', JNum 50),
                       (''pricing_power'', JNum 50), (''brand_reputation'', JNum 50),
                       (''velocity'', JNum 50)])]
      \<and> fullyScored (swot r))
   \<and> (\<exists>r. runAnalystAgent (stubEnv (replyWith (answer (Some partialScoresText) None)))
        ''Acme Corp raised prices in 2024.'' = ([], Inr r)
      \<and> swot r = JObj [(''scores'', JObj [(''innovation'', JNum 70)])])"
proof -
  let ?c = "''Acme Corp raised prices in 2024.''"
  have gw: "generateContent (stubEnv (replyWith a)) (analystRequest (stubEnv (replyWith a)) ?c)
      = Inr a" for a
    by (simp add: stub_gateway replyWith_def)
  have ne: "''not json'' \<noteq> []" "''null'' \<noteq> []" "strengthsOnlyText \<noteq> []"
      "partialScoresText \<noteq> []"
    by (simp_all add: strengthsOnlyText_def partialScoresText_def)
  note inst = runAnalystAgent_scores [OF gw stub_pricing]
  have one: "\<exists>cs r. runAnalystAgent (stubEnv (replyWith (answer (Some ''not json'') None))) ?c
        = (cs, Inr r) \<and> fullyScored (swot r)"
    using inst [of "answer (Some ''not json'') None"]
    by (simp add: textOr_answer [OF ne(1)] stub_parse parseKnown_values) blast
  have two: "\<exists>cs r. runAnalystAgent (stubEnv (replyWith (answer (Some ''null'') None))) ?c
        = (cs, Inr r) \<and> fullyScored (swot r)"
    using inst [of "answer (Some ''null'') None"]
    by (simp add: textOr_answer [OF ne(2)] stub_parse parseKnown_values isObject_def) blast
  have three: "\<exists>r. runAnalystAgent (stubEnv (replyWith (answer (Some strengthsOnlyText) None))) ?c
        = ([], Inr r)
      \<and> swot r =
          JObj [(''strengths'', JArr [JStr ''brand''] []),
                (''scores'',
                 JObj [(''innovation'', JNum 50), (''market_share'', JNum 50),
                       (''pricing_power'', JNum 50), (''brand_reputation'', JNum 50),
                       (''velocity'', JNum 50)])]
      \<and> fullyScored (swot r)"
    using inst [of "answer (Some strengthsOnlyText) None"]
    by (simp add: textOr_answer [OF ne(3)] stub_parse parseKnown_values isObject_def lookupProp_def
        defaultScores_def) (metis)
  have parsed: "parseSWOT (stubEnv (replyWith a)) (answer (Some partialScoresText) None)
      = ([], JObj [(''scores'', JObj [(''innovation'', JNum 70)])])" for a
    by (simp add: parseSWOT_def textOr_answer [OF ne(4)] stub_parse parseKnown_values lookupProp_def)
  obtain r where r: "runAnalystAgent (stubEnv (replyWith (answer (Some partialScoresText) None))) ?c
        = ([], Inr r)"
    using analyst_numeric_scores [OF gw stub_pricing parsed, of "[(''innovation'', JNum 70)]" "[70]"]
    by (auto simp: lookupProp_def)
  have "swot r = JObj [(''scores'', JObj [(''innovation'', JNum 70)])]"
    using inst [of "answer (Some partialScoresText) None"] r
    by (simp add: textOr_answer [OF ne(4)] stub_parse parseKnown_values lookupProp_def)
  with r have four: "\<exists>r. runAnalystAgent (stubEnv (replyWith (answer (Some partialScoresText) None))) ?c
        = ([], Inr r) \<and> swot r = JObj [(''scores'', JObj [(''innovation'', JNum 70)])]"
    by blast
  show ?thesis using one two three four by blast
qed

text \<open>
  The claim as worded fails on a partial \<^verbatim>\<open>scores\<close> object: the text
  \<^verbatim>\<open>{"scores":{"innovation":70}}\<close> parses, and the analyst returns it with one score.
\<close>

theorem runAnalystAgent_partial_scores_counterexample:
  "JSON_parse (stubEnv (replyWith (answer (Some partialScoresText) None))) partialScoresText
     = Inr (JObj [(''scores'', JObj [(''innovation'', JNum 70)])])
   \<and> map_option swot
        (returned (runAnalystAgent (stubEnv (replyWith (answer (Some partialScoresText) None)))
           ''Acme Corp raised prices in 2024.''))
     = Some (JObj [(''scores'', JObj [(''innovation'', JNum 70)])])
   \<and> \<not> fullyScored (JObj [(''scores'', JObj [(''innovation'', JNum 70)])])"
proof -
  let ?c = "''Acme Corp raised prices in 2024.''"
  let ?a = "answer (Some partialScoresText) None"
  have ne: "partialScoresText \<noteq> []" by (simp add: partialScoresText_def)
  have gw: "generateContent (stubEnv (replyWith ?a)) (analystRequest (stubEnv (replyWith ?a)) ?c)
      = Inr ?a"
    by (simp add: stub_gateway replyWith_def)
  have parsed: "parseSWOT (stubEnv (replyWith ?a)) ?a
      = ([], JObj [(''scores'', JObj [(''innovation'', JNum 70)])])"
    by (simp add: parseSWOT_def textOr_answer [OF ne] stub_parse parseKnown_values lookupProp_def)
  obtain r where r: "runAnalystAgent (stubEnv (replyWith ?a)) ?c = ([], Inr r)"
      "swot r = JObj [(''scores'', JObj [(''innovation'', JNum 70)])]"
    using analyst_numeric_scores [OF gw stub_pricing parsed, of "[(''innovation'', JNum 70)]" "[70]"]
    by (auto simp: lookupProp_def)
  have "\<not> fullyScored (JObj [(''scores'', JObj [(''innovation'', JNum 70)])])"
    by (simp add: fullyScored_def lookupProp_def scoreNames_def)
  then show ?thesis
    using r by (simp add: returned_def stub_parse parseKnown_values)
qed

section \<open>Reporter: no failure leaves the stage\<close>

text \<open>
  Claim C3. The reporter always returns, and its report is never empty. When the gateway
  call fails, and when the answer has no text or an empty one, it returns the fixed
  markdown \<^verbatim>\<open># Report Generation Failed ...\<close> with a log entry of type \<^verbatim>\<open>'error'\<close>
  whose \<^verbatim>\<open>latencyMs\<close>, \<^verbatim>\<open>tokenUsage\<close> and \<^verbatim>\<open>cost\<close> are 0, after reporting the error
  on the console.
\<close>

theorem runReporterAgent_never_throws:
  "(\<exists>cs r. runReporterAgent env swot' rawData company = (cs, Inr r) \<and> report r \<noteq> [])
   \<and> (let failure = (\<lambda>e.
           ([console_error ''Reporter Agent Error:'' e],
            Inr \<lparr>log_entry =
                   \<lparr>timestamp = toISOString env,
                    agent = REPORTER,
                    message = ''Failed to generate report: '' @ errorText env e,
                    type = ''error'',
                    latencyMs = 0,
                    tokenUsage = 0,
                    cost = 0\<rparr>,
                 report =
                   ''# Report Generation Failed\<newline>\<newline>The AI model encountered an error generating the final report. Please try again.''\<rparr>))
       in (\<forall>e. generateContent env (reporterRequest env swot' rawData company) = Inl e
                \<longrightarrow> runReporterAgent env swot' rawData company = failure e)
        \<and> (\<forall>response.
              generateContent env (reporterRequest env swot' rawData company) = Inr response
              \<and> (responseText response = None \<or> responseText response = Some [])
                \<longrightarrow> runReporterAgent env swot' rawData company
                      = failure (Error ''Reporter agent returned empty content.'')))"
proof -
  let ?gw = "generateContent env (reporterRequest env swot' rawData company)"
  have always: "\<exists>cs r. reporterFinish env company outcome = (cs, Inr r) \<and> report r \<noteq> []"
    for outcome
  proof (cases outcome)
    case (Inl e)
    then show ?thesis by (simp add: reporterFinish_def)
  next
    case (Inr response)
    show ?thesis
    proof (cases "responseText response")
      case None
      with Inr show ?thesis by (simp add: reporterFinish_def)
    next
      case (Some t)
      show ?thesis
      proof (cases "t = []")
        case True
        with Inr Some show ?thesis by (simp add: reporterFinish_def)
      next
        case False
        with Inr Some show ?thesis
          by (cases "calculateCost env (MODELS_REPORTER env) (usageMetadata response)")
             (simp_all add: reporterFinish_def)
      qed
    qed
  qed
  have first: "\<exists>cs r. runReporterAgent env swot' rawData company = (cs, Inr r) \<and> report r \<noteq> []"
    using always [of ?gw] by (simp add: runReporterAgent_def)
  show ?thesis
    using first by (auto simp: Let_def runReporterAgent_def reporterFinish_def)
qed

theorem runReporterAgent_never_throws_witness:
  "returned (runReporterAgent (stubEnv (failWith (Rejected ''503 Service Unavailable'')))
       emptySWOT ''Acme raised prices.'' ''Acme Corp'')
     = Some \<lparr>log_entry =
              \<lparr>timestamp = ''2025-01-01T00:00:00.000Z'',
               agent = REPORTER,
               message = ''Failed to generate report: 503 Service Unavailable'',
               type = ''error'',
               latencyMs = 0,
               tokenUsage = 0,
               cost = 0\<rparr>,
            report =
              ''# Report Generation Failed\<newline>\<newline>The AI model encountered an error generating the final report. Please try again.''\<rparr>
   \<and> returned (runReporterAgent (stubEnv (replyWith (answer (Some []) (Some (totalOnly 120)))))
       emptySWOT ''Acme raised prices.'' ''Acme Corp'')
     = Some \<lparr>log_entry =
              \<lparr>timestamp = ''2025-01-01T00:00:00.000Z'',
               agent = REPORTER,
               message = ''Failed to generate report: Error: Reporter agent returned empty content.'',
               type = ''error'',
               latencyMs = 0,
               tokenUsage = 0,
               cost = 0\<rparr>,
            report =
              ''# Report Generation Failed\<newline>\<newline>The AI model encountered an error generating the final report. Please try again.''\<rparr>"
proof -
  let ?down = "stubEnv (failWith (Rejected ''503 Service Unavailable''))"
  let ?mute = "stubEnv (replyWith (answer (Some []) (Some (totalOnly 120))))"
  have gw1: "generateContent ?down (reporterRequest ?down emptySWOT ''Acme raised prices.'' ''Acme Corp'')
      = Inl (Rejected ''503 Service Unavailable'')"
    by (simp add: stub_gateway failWith_def)
  have gw2: "generateContent ?mute (reporterRequest ?mute emptySWOT ''Acme raised prices.'' ''Acme Corp'')
      = Inr (answer (Some []) (Some (totalOnly 120)))
      \<and> (responseText (answer (Some []) (Some (totalOnly 120))) = None
         \<or> responseText (answer (Some []) (Some (totalOnly 120))) = Some [])"
    by (simp add: stub_gateway replyWith_def answer_def)
  have stub: "toISOString (stubEnv g) = ''2025-01-01T00:00:00.000Z''"
     "errorText (stubEnv g) (Rejected d) = d"
     "errorText (stubEnv g) (Error ''Reporter agent returned empty content.'')
        = ''Error: Reporter agent returned empty content.''" for g d
    by (simp_all add: stubEnv_def errorText_def describeError_def)
  show ?thesis
    using runReporterAgent_never_throws [of ?down emptySWOT "''Acme raised prices.''" "''Acme Corp''"]
          runReporterAgent_never_throws [of ?mute emptySWOT "''Acme raised prices.''" "''Acme Corp''"]
          gw1 gw2
    by (simp add: Let_def returned_def stub stub_gateway failWith_def replyWith_def answer_def)
qed

section \<open>All stages: tokens counted, cost not\<close>

text \<open>
  Claim C10, as the code has it. Let the usage metadata of the answer carry a
  \<^verbatim>\<open>totalTokenCount\<close> above 0 and neither \<^verbatim>\<open>promptTokenCount\<close> nor
  \<^verbatim>\<open>candidatesTokenCount\<close>. Then the log entry of every stage that returns its
  \<^verbatim>\<open>'success'\<close> entry has that total as \<^verbatim>\<open>tokenUsage\<close> and a \<^verbatim>\<open>cost\<close> of 0. (The
  first four stages return no other entry; the reporter returns its \<^verbatim>\<open>'error'\<close> entry
  when the answer has no text.)
\<close>

theorem total_only_usage_log:
  assumes u: "usageMetadata response = Some u"
      and p: "promptTokenCount u = None" and c: "candidatesTokenCount u = None"
      and t: "totalTokenCount u = Some n" and pos: "0 < n"
  shows
    "(\<forall>query cs r.
        generateContent env (routerRequest env query) = Inr response
        \<and> runRouterAgent env query = (cs, Inr r)
        \<longrightarrow> 0 < tokenUsage (log_entry r) \<and> tokenUsage (log_entry r) = n
            \<and> cost (log_entry r) = 0)
   \<and> (\<forall>company queries cs r.
        generateContent env (hunterRequest env company queries) = Inr response
        \<and> runHunterAgent env company queries = (cs, Inr r)
        \<longrightarrow> 0 < tokenUsage (log_entry r) \<and> tokenUsage (log_entry r) = n
            \<and> cost (log_entry r) = 0)
   \<and> (\<forall>urls cs r.
        generateContent env (scraperRequest env urls) = Inr response
        \<and> runScraperAgent env urls = (cs, Inr r)
        \<longrightarrow> 0 < tokenUsage (log_entry r) \<and> tokenUsage (log_entry r) = n
            \<and> cost (log_entry r) = 0)
   \<and> (\<forall>content' cs r.
        generateContent env (analystRequest env content') = Inr response
        \<and> runAnalystAgent env content' = (cs, Inr r)
        \<longrightarrow> 0 < tokenUsage (log_entry r) \<and> tokenUsage (log_entry r) = n
            \<and> cost (log_entry r) = 0)
   \<and> (\<forall>swot' rawData company cs r.
        generateContent env (reporterRequest env swot' rawData company) = Inr response
        \<and> runReporterAgent env swot' rawData company = (cs, Inr r)
        \<and> type (log_entry r) = ''success''
        \<longrightarrow> 0 < tokenUsage (log_entry r) \<and> tokenUsage (log_entry r) = n
            \<and> cost (log_entry r) = 0)"
proof -
  note tok = total_only_tokens [OF u t]
  have zero: "calculateCost env m (usageMetadata response) = Inr k \<Longrightarrow> k = 0" for m k
    using total_only_cost [OF u p c] .
  have router: "tokenUsage (log_entry r) = n \<and> cost (log_entry r) = 0"
    if "generateContent env (routerRequest env query) = Inr response"
       "runRouterAgent env query = (cs, Inr r)" for query cs r
    using that tok zero
    by (auto simp: runRouterAgent_def routerFinish_def rethrow_Inr_iff andThen_Inr_iff)
  have hunter: "tokenUsage (log_entry r) = n \<and> cost (log_entry r) = 0"
    if "generateContent env (hunterRequest env company queries) = Inr response"
       "runHunterAgent env company queries = (cs, Inr r)" for company queries cs r
    using that tok zero
    by (auto simp: runHunterAgent_def hunterFinish_def rethrow_Inr_iff andThen_Inr_iff)
  have scraper: "tokenUsage (log_entry r) = n \<and> cost (log_entry r) = 0"
    if "generateContent env (scraperRequest env urls) = Inr response"
       "runScraperAgent env urls = (cs, Inr r)" for urls cs r
    using that tok zero
    by (auto simp: runScraperAgent_def scraperFinish_def rethrow_Inr_iff andThen_Inr_iff)
  have analyst: "tokenUsage (log_entry r) = n \<and> cost (log_entry r) = 0"
    if "generateContent env (analystRequest env content') = Inr response"
       "runAnalystAgent env content' = (cs, Inr r)" for content' cs r
    using that tok zero
    by (auto simp: runAnalystAgent_def analystFinish_def rethrow_Inr_iff andThen_Inr_iff
        split: prod.splits)
  have reporter: "tokenUsage (log_entry r) = n \<and> cost (log_entry r) = 0"
    if "generateContent env (reporterRequest env swot' rawData company) = Inr response"
       "runReporterAgent env swot' rawData company = (cs, Inr r)"
       "type (log_entry r) = ''success''" for swot' rawData company cs r
    using that tok zero
    by (auto simp: runReporterAgent_def reporterFinish_def andThen_Inr_iff
        split: sum.splits)
  show ?thesis
  proof (intro conjI allI impI)
    fix query cs and r :: RouterResult
    assume "generateContent env (routerRequest env query) = Inr response
        \<and> runRouterAgent env query = (cs, Inr r)"
    then have "tokenUsage (log_entry r) = n \<and> cost (log_entry r) = 0"
      using router by blast
    then show "0 < tokenUsage (log_entry r)" "tokenUsage (log_entry r) = n"
        "cost (log_entry r) = 0"
      using pos by simp_all
  next
    fix company queries cs and r :: HunterResult
    assume "generateContent env (hunterRequest env company queries) = Inr response
        \<and> runHunterAgent env company queries = (cs, Inr r)"
    then have "tokenUsage (log_entry r) = n \<and> cost (log_entry r) = 0"
      using hunter by blast
    then show "0 < tokenUsage (log_entry r)" "tokenUsage (log_entry r) = n"
        "cost (log_entry r) = 0"
      using pos by simp_all
  next
    fix urls cs and r :: ScraperResult
    assume "generateContent env (scraperRequest env urls) = Inr response
        \<and> runScraperAgent env urls = (cs, Inr r)"
    then have "tokenUsage (log_entry r) = n \<and> cost (log_entry r) = 0"
      using scraper by blast
    then show "0 < tokenUsage (log_entry r)" "tokenUsage (log_entry r) = n"
        "cost (log_entry r) = 0"
      using pos by simp_all
  next
    fix content' cs and r :: AnalystResult
    assume "generateContent env (analystRequest env content') = Inr response
        \<and> runAnalystAgent env content' = (cs, Inr r)"
    then have "tokenUsage (log_entry r) = n \<and> cost (log_entry r) = 0"
      using analyst by blast
    then show "0 < tokenUsage (log_entry r)" "tokenUsage (log_entry r) = n"
        "cost (log_entry r) = 0"
      using pos by simp_all
  next
    fix swot' rawData company cs and r :: ReporterResult
    assume "generateContent env (reporterRequest env swot' rawData company) = Inr response
        \<and> runReporterAgent env swot' rawData company = (cs, Inr r)
        \<and> type (log_entry r) = ''success''"
    then have "tokenUsage (log_entry r) = n \<and> cost (log_entry r) = 0"
      using reporter by blast
    then show "0 < tokenUsage (log_entry r)" "tokenUsage (log_entry r) = n"
        "cost (log_entry r) = 0"
      using pos by simp_all
  qed
qed

theorem total_only_usage_log_witness:
  "(\<exists>cs r. runRouterAgent (stubEnv (replyWith (answer (Some ''{}'') (Some (totalOnly 120)))))
        ''Analyze Acme Corp pricing'' = (cs, Inr r)
      \<and> tokenUsage (log_entry r) = 120 \<and> cost (log_entry r) = 0)
   \<and> (\<exists>cs r. runHunterAgent (stubEnv (replyWith (answer (Some ''{}'') (Some (totalOnly 120)))))
        ''Acme Corp'' [''pricing''] = (cs, Inr r)
      \<and> tokenUsage (log_entry r) = 120 \<and> cost (log_entry r) = 0)
   \<and> (\<exists>cs r. runScraperAgent (stubEnv (replyWith (answer (Some ''{}'') (Some (totalOnly 120)))))
        twoSources = (cs, Inr r)
      \<and> tokenUsage (log_entry r) = 120 \<and> cost (log_entry r) = 0)
   \<and> (\<exists>cs r. runAnalystAgent (stubEnv (replyWith (answer (Some ''{}'') (Some (totalOnly 120)))))
        ''Acme Corp raised prices in 2024.'' = (cs, Inr r)
      \<and> tokenUsage (log_entry r) = 120 \<and> cost (log_entry r) = 0)
   \<and> (\<exists>cs r. runReporterAgent (stubEnv (replyWith (answer (Some ''{}'') (Some (totalOnly 120)))))
        emptySWOT ''Acme raised prices.'' ''Acme Corp'' = (cs, Inr r)
      \<and> type (log_entry r) = ''success''
      \<and> tokenUsage (log_entry r) = 120 \<and> cost (log_entry r) = 0)"
proof -
  let ?a = "answer (Some ''{}'') (Some (totalOnly 120))"
  let ?env = "stubEnv (replyWith ?a)"
  have gw: "generateContent ?env req = Inr ?a" for req
    by (simp add: stub_gateway replyWith_def)
  have u: "usageMetadata ?a = Some (totalOnly 120)"
    by (simp add: answer_def)
  have p: "promptTokenCount (totalOnly 120) = None"
    and c: "candidatesTokenCount (totalOnly 120) = None"
    and t: "totalTokenCount (totalOnly 120) = Some 120"
    by (simp_all add: totalOnly_def)
  have pos: "(0::real) < 120" by simp
  note inst = total_only_usage_log [OF u p c t pos, of ?env]
  have tx: "responseText ?a = Some ''{}''" by (simp add: answer_def)
  have ne: "''{}'' \<noteq> []" by simp
  have parse: "JSON_parse ?env (textOr (responseText ?a) ''{}'') = Inr (JObj [])"
    by (simp add: textOr_answer stub_parse parseKnown_values)
  obtain r1 where r1: "runRouterAgent ?env ''Analyze Acme Corp pricing'' = ([], Inr r1)"
    using router_returns_empty_object [OF gw parse stub_pricing] by blast
  obtain r2 where r2: "runHunterAgent ?env ''Acme Corp'' [''pricing''] = ([], Inr r2)"
    using hunter_returns [OF gw stub_pricing] by blast
  obtain r3 where r3: "runScraperAgent ?env twoSources = ([], Inr r3)"
    using scraper_returns [OF gw stub_pricing] by blast
  have parsed: "parseSWOT ?env ?a = ([], JObj [(''scores'', defaultScores)])"
    by (simp add: parseSWOT_def textOr_answer stub_parse parseKnown_values lookupProp_def)
  obtain r4 where r4: "runAnalystAgent ?env ''Acme Corp raised prices in 2024.'' = ([], Inr r4)"
    using analyst_numeric_scores [OF gw stub_pricing parsed,
        of "[(''innovation'', JNum 50), (''market_share'', JNum 50), (''pricing_power'', JNum 50),
             (''brand_reputation'', JNum 50), (''velocity'', JNum 50)]" "[50, 50, 50, 50, 50]"]
    by (auto simp: lookupProp_def defaultScores_def)
  obtain r5 where r5: "runReporterAgent ?env emptySWOT ''Acme raised prices.'' ''Acme Corp''
        = ([], Inr r5)" "type (log_entry r5) = ''success''"
    using reporter_returns_success [OF gw tx ne stub_pricing] by blast
  have "tokenUsage (log_entry r1) = 120 \<and> cost (log_entry r1) = 0"
    using inst r1 gw by blast
  moreover have "tokenUsage (log_entry r2) = 120 \<and> cost (log_entry r2) = 0"
    using inst r2 gw by blast
  moreover have "tokenUsage (log_entry r3) = 120 \<and> cost (log_entry r3) = 0"
    using inst r3 gw by blast
  moreover have "tokenUsage (log_entry r4) = 120 \<and> cost (log_entry r4) = 0"
    using inst r4 gw by blast
  moreover have "tokenUsage (log_entry r5) = 120 \<and> cost (log_entry r5) = 0"
    using inst r5 gw by blast
  ultimately show ?thesis
    using r1 r2 r3 r4 r5 by blast
qed

text \<open>
  The claim as worded fails for the reporter on an answer without text: the entry it
  returns has a \<^verbatim>\<open>tokenUsage\<close> of 0, whatever the usage metadata say.
\<close>

theorem reporter_total_only_counterexample:
  "usageMetadata (answer (Some []) (Some (totalOnly 120))) = Some (totalOnly 120)
   \<and> promptTokenCount (totalOnly 120) = None
   \<and> candidatesTokenCount (totalOnly 120) = None
   \<and> totalTokenCount (totalOnly 120) = Some 120
   \<and> generateContent (stubEnv (replyWith (answer (Some []) (Some (totalOnly 120)))))
        (reporterRequest (stubEnv (replyWith (answer (Some []) (Some (totalOnly 120)))))
           emptySWOT ''Acme raised prices.'' ''Acme Corp'')
      = Inr (answer (Some []) (Some (totalOnly 120)))
   \<and> map_option (tokenUsage \<circ> log_entry)
        (returned (runReporterAgent (stubEnv (replyWith (answer (Some []) (Some (totalOnly 120)))))
           emptySWOT ''Acme raised prices.'' ''Acme Corp''))
      = Some 0"
  by (simp add: stub_gateway answer_def totalOnly_def replyWith_def returned_def
      runReporterAgent_def reporterFinish_def)

end
